theory Spec2Isabelle
  imports Main "HOL-Library.AList"
begin

section \<open>Data of a build\<close>

text \<open>
  The build pipeline of \<^verbatim>\<open>src/unnamed/part_000\<close> (the module exporting
  \<^verbatim>\<open>buildNativefierApp\<close>) is embedded function by function. Strings are
  \<^typ>\<open>string\<close>, a character beyond ASCII being the bytes of its UTF-8 encoding (as
  \<^verbatim>\<open>fs.writeFile\<close> writes it); an optional field of an options object is an \<^typ>\<open>'a option\<close>
  with \<^term>\<open>None\<close> for \<^verbatim>\<open>undefined\<close>.
\<close>

text \<open>
  JavaScript values as far as the code inspects them without knowing their type: the
  values of \<^verbatim>\<open>Object.entries(options)\<close> are only tested with \<^verbatim>\<open>!!value\<close>.
\<close>

datatype jsvalue = JUndefined | JBool bool | JStr string | JObject

fun truthy :: "jsvalue \<Rightarrow> bool" where
  "truthy JUndefined = False"
| "truthy (JBool b) = b"
| "truthy (JStr s) = (s \<noteq> [])"
| "truthy JObject = True"

text \<open>Truthiness of a field of type \<^verbatim>\<open>string | undefined\<close> and \<^verbatim>\<open>boolean | undefined\<close>.\<close>

definition truthy_string :: "string option \<Rightarrow> bool" where
  "truthy_string v = (case v of None \<Rightarrow> False | Some s \<Rightarrow> s \<noteq> [])"

definition truthy_flag :: "bool option \<Rightarrow> bool" where
  "truthy_flag v = (case v of None \<Rightarrow> False | Some b \<Rightarrow> b)"

text \<open>
  \<^verbatim>\<open>RawOptions\<close>: the request. Its declaration (\<^verbatim>\<open>shared/src/options/model\<close>) is not
  among the sources; the fields are the ones the pipeline reads or writes, with the types
  its tests imply (\<^verbatim>\<open>upgrade\<close> is compared with \<^verbatim>\<open>undefined\<close>, tested with
  \<^verbatim>\<open>typeof ... === 'string'\<close> and assigned \<^verbatim>\<open>true\<close>), and the fields a concrete
  resolver needs.
\<close>

datatype upgrade_value = UpgradeFlag bool | UpgradePath string

record RawOptions =
  targetUrl :: "string option"
  name :: "string option"
  platform :: "string option"
  icon :: "string option"
  out :: "string option"
  overwrite :: "bool option"
  upgrade :: "upgrade_value option"
  upgradeFrom :: "string option"
  quiet :: "bool option"
  verbose :: "bool option"

text \<open>
  \<^verbatim>\<open>AppOptions\<close>: the resolved configuration, \<^verbatim>\<open>{packager, nativefier}\<close>. The fields
  of \<^verbatim>\<open>options.packager\<close> are those the pipeline touches, and the ones named by
  \<^verbatim>\<open>OPTIONS_REQUIRING_WINDOWS_FOR_WINDOWS_BUILD\<close>. The field \<open>extra\<close> holds the own
  enumerable properties the object carries at the top level besides \<^verbatim>\<open>packager\<close> and
  \<^verbatim>\<open>nativefier\<close>: \<^verbatim>\<open>trimUnprocessableOptions\<close> writes such properties through its cast
  to \<^verbatim>\<open>Record<string, undefined>\<close>.
\<close>

record PackagerOptions =
  dir :: string
  out :: "string option"
  platform :: "string option"
  name :: "string option"
  targetUrl :: "string option"
  icon :: "string option"
  overwrite :: "bool option"
  upgrade :: bool
  upgradeFrom :: "string option"
  quiet :: bool
  appCopyright :: "string option"
  appVersion :: "string option"
  buildVersion :: "string option"
  win32metadata :: "(string \<times> string) list option"

record NativefierOptions =
  tray :: "string option"

record AppOptions =
  packager :: PackagerOptions
  nativefier :: NativefierOptions
  extra :: "(string \<times> jsvalue) list"

text \<open>
  The prior install found by \<^verbatim>\<open>findUpgradeApp\<close>. The pipeline reads \<^verbatim>\<open>appRoot\<close> only;
  \<open>savedOptions\<close> is the configuration saved with the install.
\<close>

record UpgradeAppInfo =
  appRoot :: string
  savedOptions :: RawOptions

text \<open>What \<^verbatim>\<open>electronPackager\<close> resolves to: \<^verbatim>\<open>getAppPath\<close> takes \<^verbatim>\<open>string | string[]\<close>.\<close>

datatype packager_result = OnePath string | PathList "string list"

section \<open>Errors, effects and the host\<close>

text \<open>
  Every \<^verbatim>\<open>throw\<close> of the module is a constructor:
  \<^item> \<open>OldAppNotFound\<close>: \<^verbatim>\<open>Could not find an old Nativfier app in "..."\<close>;
  \<^item> \<open>AdminRequired\<close>: \<^verbatim>\<open>Building an app with a target platform of Mac on a Windows machine requires admin priveleges ...\<close>;
  \<^item> \<open>AppPathUndetermined\<close>: \<^verbatim>\<open>App Path could not be determined.\<close>;
  \<^item> \<open>CopyToOptFailed\<close>: \<^verbatim>\<open>Failed to copy app to ...\<close>;
  \<^item> \<open>Thrown\<close>: whatever a collaborator or a file-system call raises, with its message.
\<close>

datatype error =
    OldAppNotFound "string option"
  | AdminRequired
  | AppPathUndetermined
  | CopyToOptFailed string
  | Thrown string

text \<open>
  The effects of a run are recorded in order, as a list of events. Calls of
  \<^verbatim>\<open>log.info\<close> and \<^verbatim>\<open>log.warn\<close> are events with their arguments; calls of
  \<^verbatim>\<open>log.debug\<close> are left out. An \<open>Fs\<close> event is a call of \<^verbatim>\<open>fs-extra\<close>, recorded
  whether it succeeds or throws. \<open>Copy src dest overwrite preserveTimestamps\<close> has
  \<^term>\<open>None\<close> for an option the call does not pass.
\<close>

datatype level = Info | Warn

datatype log_arg = Txt string | Err error | Paths "string list"

datatype fs_op =
    Copy string string "bool option" "bool option"
  | Remove string
  | Readdir string
  | WriteFile string string
  | Chmod string nat
  | EnsureDir string

datatype event =
    SetLevelSilent
  | Log level "log_arg list"
  | GetTempDir string nat
  | PrepareElectronApp string string
  | ConvertIcon
  | InitializeProxy
  | ElectronPackager PackagerOptions
  | Fs fs_op
  | SpawnSync string "string list"

text \<open>
  The outside world answers each call, given the events so far: whether a file-system
  call throws, what a directory holds, the exit status of a subprocess
  (\<^term>\<open>None\<close> for \<^verbatim>\<open>null\<close>), the directory \<^verbatim>\<open>getTempDir\<close> creates.
\<close>

record world =
  fs_outcome :: "event list \<Rightarrow> fs_op \<Rightarrow> error option"
  readdir_outcome :: "event list \<Rightarrow> string \<Rightarrow> error + string list"
  spawn_status :: "event list \<Rightarrow> string \<Rightarrow> string list \<Rightarrow> int option"
  tempdir_outcome :: "event list \<Rightarrow> string \<Rightarrow> nat \<Rightarrow> string"

text \<open>
  The host: \<^verbatim>\<open>process.platform\<close>, the helpers \<^verbatim>\<open>hasWine()\<close> and
  \<^verbatim>\<open>isWindowsAdmin()\<close> of \<^verbatim>\<open>helpers/helpers\<close> (not among the sources, taken as
  given), \<^verbatim>\<open>process.cwd()\<close>, \<^verbatim>\<open>process.getuid\<close> and \<^verbatim>\<open>process.getgid\<close> (absent on
  Windows) and \<^verbatim>\<open>os.homedir()\<close>.
\<close>

record host =
  process_platform :: string
  hasWine :: bool
  isWindowsAdmin :: bool
  process_cwd :: string
  process_getuid :: "nat option"
  process_getgid :: "nat option"
  os_homedir :: string

text \<open>
  Modelled from the spec: the helper \<^verbatim>\<open>isWindows\<close> of \<^verbatim>\<open>helpers/helpers\<close> is not among
  the sources. The spec's "the host OS is Windows" is Node's
  \<^verbatim>\<open>process.platform === 'win32'\<close>.
\<close>

definition isWindows :: "host \<Rightarrow> bool" where
  "isWindows H = (process_platform H = ''win32'')"

text \<open>
  Node's \<^verbatim>\<open>path\<close> module depends on the host (POSIX or Windows flavour), so the
  functions of the module that the pipeline calls are parameters.
\<close>

record pathlib =
  path_join :: "string list \<Rightarrow> string"
  path_dirname :: "string \<Rightarrow> string"
  path_basename :: "string \<Rightarrow> string"
  path_extname :: "string \<Rightarrow> string"

text \<open>
  The collaborators imported from modules that are not among the sources, as parameters.
  \<^verbatim>\<open>convertIconIfNecessary\<close> mutates the options; here it returns them.
  \<^verbatim>\<open>findUpgradeApp\<close> receives \<^verbatim>\<open>rawOptions.upgradeFrom as string\<close>: the cast is erased
  at run time, so it receives the field as it is.
\<close>

record collaborators =
  findUpgradeApp :: "string option \<Rightarrow> UpgradeAppInfo option"
  useOldAppOptions :: "RawOptions \<Rightarrow> UpgradeAppInfo \<Rightarrow> RawOptions"
  getOptions :: "RawOptions \<Rightarrow> error + AppOptions"
  prepareElectronApp :: "string \<Rightarrow> string \<Rightarrow> AppOptions \<Rightarrow> error option"
  convertIconIfNecessary :: "AppOptions \<Rightarrow> AppOptions"
  electronPackager :: "PackagerOptions \<Rightarrow> error + packager_result"

subsection \<open>Sequencing\<close>

text \<open>
  A computation takes the events so far and returns its result, \<^term>\<open>Inl\<close> for a
  thrown error, with the events extended. \<open>io_bind\<close> is \<^verbatim>\<open>await\<close>/\<^verbatim>\<open>;\<close>: a throw
  skips the rest. \<open>io_catch\<close> is \<^verbatim>\<open>try { ... } catch (err) { ... }\<close>.
\<close>

type_synonym 'a io = "event list \<Rightarrow> (error + 'a) \<times> event list"

definition io_return :: "'a \<Rightarrow> 'a io" where
  "io_return x tr = (Inr x, tr)"

definition io_throw :: "error \<Rightarrow> 'a io" where
  "io_throw e tr = (Inl e, tr)"

definition io_bind :: "'a io \<Rightarrow> ('a \<Rightarrow> 'b io) \<Rightarrow> 'b io" where
  "io_bind m f tr = (case m tr of (Inl e, tr') \<Rightarrow> (Inl e, tr') | (Inr x, tr') \<Rightarrow> f x tr')"

definition io_catch :: "'a io \<Rightarrow> (error \<Rightarrow> 'a io) \<Rightarrow> 'a io" where
  "io_catch body handler tr =
     (case body tr of (Inl e, tr') \<Rightarrow> handler e tr' | (Inr x, tr') \<Rightarrow> (Inr x, tr'))"

definition emit :: "event \<Rightarrow> unit io" where
  "emit ev tr = (Inr (), tr @ [ev])"

definition log_info :: "log_arg list \<Rightarrow> unit io" where
  "log_info args = emit (Log Info args)"

definition log_warn :: "log_arg list \<Rightarrow> unit io" where
  "log_warn args = emit (Log Warn args)"

text \<open>A call of \<^verbatim>\<open>fs-extra\<close> that returns nothing: recorded, then it returns or throws.\<close>

definition fs_call :: "world \<Rightarrow> fs_op \<Rightarrow> unit io" where
  "fs_call W op tr =
     (case fs_outcome W tr op of
        None \<Rightarrow> (Inr (), tr @ [Fs op])
      | Some e \<Rightarrow> (Inl e, tr @ [Fs op]))"

definition fs_readdir :: "world \<Rightarrow> string \<Rightarrow> string list io" where
  "fs_readdir W p tr = (readdir_outcome W tr p, tr @ [Fs (Readdir p)])"

definition spawnSync :: "world \<Rightarrow> string \<Rightarrow> string list \<Rightarrow> int option io" where
  "spawnSync W cmd args tr = (Inr (spawn_status W tr cmd args), tr @ [SpawnSync cmd args])"

definition getTempDir :: "world \<Rightarrow> string \<Rightarrow> nat \<Rightarrow> string io" where
  "getTempDir W prefix mode tr = (Inr (tempdir_outcome W tr prefix mode), tr @ [GetTempDir prefix mode])"

section \<open>The helpers of the module\<close>

subsection \<open>\<^verbatim>\<open>getAppPath\<close> and the check that follows it\<close>

text \<open>
  \<^verbatim>\<open>getAppPath\<close>: a string is returned as it is; an empty array gives \<^verbatim>\<open>undefined\<close>;
  an array of more than one element is reported with \<^verbatim>\<open>log.warn\<close>; then the first element
  is returned.
\<close>

definition getAppPath :: "packager_result \<Rightarrow> string option io" where
  "getAppPath appPath =
     (case appPath of
        OnePath p \<Rightarrow> io_return (Some p)
      | PathList ps \<Rightarrow>
          if length ps = 0 then io_return None
          else io_bind
            (if length ps > 1
             then log_warn [Txt ''Warning: This should not be happening, packaged app path contains more than one element:'', Paths ps]
             else io_return ())
            (\<lambda>_. io_return (Some (ps ! 0))))"

text \<open>
  In \<^verbatim>\<open>buildNativefierApp\<close>:
  \<^verbatim>\<open>if (!appPath) { throw new Error('App Path could not be determined.'); }\<close>
\<close>

definition requireAppPath :: "string option \<Rightarrow> string io" where
  "requireAppPath appPath =
     (if \<not> truthy_string appPath then io_throw AppPathUndetermined
      else (case appPath of Some p \<Rightarrow> io_return p | None \<Rightarrow> io_throw AppPathUndetermined))"

subsection \<open>\<^verbatim>\<open>isUpgrade\<close>\<close>

text \<open>
  \<^verbatim>\<open>isUpgrade\<close> mutates its argument; here it returns its answer and the request as it
  leaves it.
\<close>

definition isUpgrade :: "RawOptions \<Rightarrow> bool \<times> RawOptions" where
  "isUpgrade rawOptions =
     (case RawOptions.upgrade rawOptions of
        Some (UpgradePath p) \<Rightarrow>
          if p \<noteq> []
          then (True, rawOptions\<lparr>RawOptions.upgradeFrom := Some p,
                                 RawOptions.upgrade := Some (UpgradeFlag True)\<rparr>)
          else (False, rawOptions)
      | _ \<Rightarrow> (False, rawOptions))"

subsection \<open>\<^verbatim>\<open>copyIconsIfNecessary\<close>\<close>

definition copyIconsIfNecessary :: "pathlib \<Rightarrow> world \<Rightarrow> AppOptions \<Rightarrow> string \<Rightarrow> unit io" where
  "copyIconsIfNecessary P W options appPath =
     (case icon (packager options) of
        None \<Rightarrow> io_return ()
      | Some iconFile \<Rightarrow>
          if iconFile = [] then io_return ()
          else if platform (packager options) = Some ''darwin''
                  \<or> platform (packager options) = Some ''mas''
          then (if tray (nativefier options) \<noteq> Some ''false''
                then fs_call W (Copy (path_dirname P iconFile @ ''/'' @ ''tray-icon.png'')
                                     (path_join P [appPath, ''icon.png'']) None None)
                else io_return ())
          else fs_call W (Copy iconFile
                               (path_join P [appPath, ''icon'' @ path_extname P iconFile])
                               None None))"

subsection \<open>\<^verbatim>\<open>trimUnprocessableOptions\<close>\<close>

definition OPTIONS_REQUIRING_WINDOWS_FOR_WINDOWS_BUILD :: "string list" where
  "OPTIONS_REQUIRING_WINDOWS_FOR_WINDOWS_BUILD =
     [''icon'', ''appCopyright'', ''appVersion'', ''buildVersion'', ''versionString'',
      ''win32metadata'']"

text \<open>
  \<^verbatim>\<open>Object.entries(options)\<close>: the own enumerable properties of the options object itself,
  in order. \<^verbatim>\<open>packager\<close> and \<^verbatim>\<open>nativefier\<close> hold objects.
\<close>

definition Object_entries :: "AppOptions \<Rightarrow> (string \<times> jsvalue) list" where
  "Object_entries options =
     (''packager'', JObject) # (''nativefier'', JObject) # extra options"

text \<open>
  \<^verbatim>\<open>(options as unknown as Record<string, undefined>)[keyToUnset] = undefined\<close>,
  for a key other than \<^verbatim>\<open>packager\<close> and \<^verbatim>\<open>nativefier\<close> (the loop assigns keys of
  \<open>OPTIONS_REQUIRING_WINDOWS_FOR_WINDOWS_BUILD\<close> only): the property of that name of the
  options object itself is set, or created, with the value \<^verbatim>\<open>undefined\<close>.
\<close>

definition unset_property :: "string \<Rightarrow> AppOptions \<Rightarrow> AppOptions" where
  "unset_property keyToUnset options =
     options\<lparr>extra := AList.update keyToUnset JUndefined (extra options)\<rparr>"

text \<open>\<^verbatim>\<open>Array.prototype.join\<close> on strings.\<close>

fun join_with :: "string \<Rightarrow> string list \<Rightarrow> string" where
  "join_with sep [] = []"
| "join_with sep [x] = x"
| "join_with sep (x # y # ys) = x @ sep @ join_with sep (y # ys)"

definition trimUnprocessableOptions :: "host \<Rightarrow> AppOptions \<Rightarrow> AppOptions io" where
  "trimUnprocessableOptions H options =
     (if platform (packager options) = Some ''win32'' \<and> \<not> isWindows H \<and> \<not> hasWine H
      then
        (let optionsPresent =
               map fst
                 (filter
                    (\<lambda>(key, value).
                       key \<in> set OPTIONS_REQUIRING_WINDOWS_FOR_WINDOWS_BUILD \<and> truthy value)
                    (Object_entries options))
         in if length optionsPresent = 0 then io_return options
            else io_bind
              (log_warn
                 [Txt (''*Not* setting ['' @ join_with '', '' optionsPresent
                         @ ''], as couldn't find Wine.''),
                  Txt ''Wine is required when packaging a Windows app under on non-Windows platforms.'',
                  Txt ''Also, note that Windows apps built under non-Windows platforms without Wine *will lack* certain'',
                  Txt ''features, like a correct icon and process name. Do yourself a favor and install Wine, please.''])
              (\<lambda>_. io_return (fold unset_property optionsPresent options)))
      else io_return options)"

subsection \<open>\<^verbatim>\<open>createLinuxDesktopLauncher\<close>\<close>

text \<open>
  A parameter whose name is also a field of the records above carries a prime.
\<close>

text \<open>
  \<^verbatim>\<open>appName.replace(/\s+/g, '')\<close> removes every white-space character. The class
  \<^verbatim>\<open>\s\<close> of JavaScript is TAB, LF, VT, FF, CR and SPACE, and beyond ASCII the characters
  U+00A0, U+1680, U+2000 to U+200A, U+2028, U+2029, U+202F, U+205F, U+3000 and U+FEFF.
  \<open>is_space\<close> holds of the six ASCII ones; \<open>space_encodings\<close> lists the UTF-8 encodings of
  the others, of two or three bytes. \<open>space_prefix s\<close> is the number of bytes of the
  white-space character \<open>s\<close> starts with, 0 when it starts with none. No encoding of a
  white-space character starts with a continuation byte, so in well-formed UTF-8 a match
  always lies on a character boundary.
\<close>

definition is_space :: "char \<Rightarrow> bool" where
  "is_space c = (c \<in> set [CHR 0x09, CHR 0x0A, CHR 0x0B, CHR 0x0C, CHR 0x0D, CHR 0x20])"

definition space_encodings :: "string list" where
  "space_encodings =
     [[CHR 0xC2, CHR 0xA0],
      [CHR 0xE1, CHR 0x9A, CHR 0x80],
      [CHR 0xE2, CHR 0x80, CHR 0x80], [CHR 0xE2, CHR 0x80, CHR 0x81],
      [CHR 0xE2, CHR 0x80, CHR 0x82], [CHR 0xE2, CHR 0x80, CHR 0x83],
      [CHR 0xE2, CHR 0x80, CHR 0x84], [CHR 0xE2, CHR 0x80, CHR 0x85],
      [CHR 0xE2, CHR 0x80, CHR 0x86], [CHR 0xE2, CHR 0x80, CHR 0x87],
      [CHR 0xE2, CHR 0x80, CHR 0x88], [CHR 0xE2, CHR 0x80, CHR 0x89],
      [CHR 0xE2, CHR 0x80, CHR 0x8A],
      [CHR 0xE2, CHR 0x80, CHR 0xA8], [CHR 0xE2, CHR 0x80, CHR 0xA9],
      [CHR 0xE2, CHR 0x80, CHR 0xAF],
      [CHR 0xE2, CHR 0x81, CHR 0x9F],
      [CHR 0xE3, CHR 0x80, CHR 0x80],
      [CHR 0xEF, CHR 0xBB, CHR 0xBF]]"

definition space_prefix :: "string \<Rightarrow> nat" where
  "space_prefix s =
     (case s of
        [] \<Rightarrow> 0
      | c # cs \<Rightarrow>
          if is_space c then 1
          else if take 2 s \<in> set space_encodings then 2
          else if take 3 s \<in> set space_encodings then 3
          else 0)"

fun strip_whitespace :: "string \<Rightarrow> string" where
  "strip_whitespace [] = []"
| "strip_whitespace (c # cs) =
     (if space_prefix (c # cs) = 0 then c # strip_whitespace cs
      else strip_whitespace (drop (space_prefix (c # cs) - 1) cs))"

text \<open>A template literal of several lines, each ended by a newline.\<close>

definition unlines :: "string list \<Rightarrow> string" where
  "unlines ls = concat (map (\<lambda>l. l @ ''\<newline>'') ls)"

text \<open>The \<^verbatim>\<open>try\<close> block of \<^verbatim>\<open>createLinuxDesktopLauncher\<close>; the mode \<^verbatim>\<open>0o755\<close> is 493.\<close>

definition createLinuxDesktopLauncher_try ::
  "pathlib \<Rightarrow> world \<Rightarrow> string \<Rightarrow> string \<Rightarrow> string \<Rightarrow> unit io" where
  "createLinuxDesktopLauncher_try P W appPath appName targetUrl' =
     io_bind (fs_readdir W appPath) (\<lambda>files.
       let executableName =
             path_basename P
               (case List.find (\<lambda>file. file = appName) files of
                  Some file \<Rightarrow> file
                | None \<Rightarrow> appName);
           iconPath = path_join P [appPath, ''resources'', ''app'', ''icon.png''];
           cleanName = strip_whitespace appName;
           desktopFileContent =
             unlines
               [''[Desktop Entry]'',
                ''Version=1.0'',
                ''Type=Application'',
                ''Name='' @ appName,
                ''Comment=App for '' @ targetUrl',
                ''Exec='' @ path_join P [appPath, executableName] @ '' %U'',
                ''Icon='' @ iconPath,
                ''Terminal=false'',
                ''Categories=Network;WebBrowser;'',
                ''StartupWMClass='' @ cleanName,
                ''StartupNotify=true'',
                ''Actions='',
                ''Keywords=messenger;chat;'',
                ''X-GNOME-UsesNotifications=true''];
           desktopFilePath = path_join P [appPath, appName @ ''.desktop'']
       in io_bind (fs_call W (WriteFile desktopFilePath desktopFileContent)) (\<lambda>_.
          io_bind (fs_call W (Chmod desktopFilePath 493)) (\<lambda>_.
          io_bind (log_info [Txt (''Created desktop launcher at '' @ desktopFilePath)]) (\<lambda>_.
          log_info [Txt (''To install system-wide, run: cp '' @ [CHR 0x22] @ desktopFilePath
                         @ [CHR 0x22] @ '' ~/.local/share/applications/'')]))))"

definition createLinuxDesktopLauncher ::
  "pathlib \<Rightarrow> world \<Rightarrow> string \<Rightarrow> string \<Rightarrow> string \<Rightarrow> unit io" where
  "createLinuxDesktopLauncher P W appPath appName targetUrl' =
     io_catch (createLinuxDesktopLauncher_try P W appPath appName targetUrl')
       (\<lambda>err. log_warn [Txt ''Failed to create desktop launcher:'', Err err])"

subsection \<open>\<^verbatim>\<open>installLinuxApp\<close>\<close>

text \<open>A number in a template literal: its decimal digits.\<close>

definition digit :: "nat \<Rightarrow> char" where
  "digit d = ''0123456789'' ! (d mod 10)"

fun decimal :: "nat \<Rightarrow> string" where
  "decimal n = (if n div 10 = 0 then [digit n] else decimal (n div 10) @ [digit n])"

text \<open>\<^verbatim>\<open>process.getuid && process.getuid() !== 0\<close>\<close>

definition needsSudo :: "host \<Rightarrow> bool" where
  "needsSudo H = (case process_getuid H of None \<Rightarrow> False | Some uid \<Rightarrow> uid \<noteq> 0)"

text \<open>
  The \<^verbatim>\<open>try\<close> block of \<^verbatim>\<open>installLinuxApp\<close>. The two dynamic imports at its head
  have no effect of their own; \<^verbatim>\<open>desktopFileSrc\<close> is computed and never used. The three
  bytes before \<open>Installed\<close> are the UTF-8 encoding of the check mark of the source.
\<close>

definition installLinuxApp_try ::
  "host \<Rightarrow> pathlib \<Rightarrow> world \<Rightarrow> string \<Rightarrow> string \<Rightarrow> unit io" where
  "installLinuxApp_try H P W appPath appName =
     (let optPath = path_join P [''/opt'', appName];
          homeDir = os_homedir H;
          desktopDir = path_join P [homeDir, ''.local'', ''share'', ''applications''];
          desktopFileDest = path_join P [desktopDir, appName @ ''.desktop'']
      in
      io_bind (log_info [Txt (''Installing '' @ appName @ '' to '' @ optPath @ ''...'')]) (\<lambda>_.
      io_bind
        (if needsSudo H then
           io_bind (spawnSync W ''sudo'' [''rm'', ''-rf'', optPath]) (\<lambda>rmStatus.
           io_bind
             (if rmStatus \<noteq> Some 0
              then log_warn [Txt (''Failed to remove old installation at '' @ optPath)]
              else io_return ()) (\<lambda>_.
           io_bind (spawnSync W ''sudo'' [''cp'', ''-r'', appPath, optPath]) (\<lambda>cpStatus.
           io_bind
             (if cpStatus \<noteq> Some 0 then io_throw (CopyToOptFailed optPath)
              else io_return ()) (\<lambda>_.
           let uid = (case process_getuid H of Some u \<Rightarrow> u | None \<Rightarrow> 1000);
               gid = (case process_getgid H of Some g \<Rightarrow> g | None \<Rightarrow> 1000)
           in io_bind
                (spawnSync W ''sudo''
                   [''chown'', ''-R'', decimal uid @ '':'' @ decimal gid, optPath])
                (\<lambda>_. io_return ())))))
         else
           io_bind (fs_call W (Remove optPath)) (\<lambda>_.
           fs_call W (Copy appPath optPath None (Some True)))) (\<lambda>_.
      let executableName = appName;
          iconPath = path_join P [optPath, ''resources'', ''app'', ''icon.png''];
          cleanName = strip_whitespace appName;
          updatedDesktopContent =
            unlines
              [''[Desktop Entry]'',
               ''Version=1.0'',
               ''Type=Application'',
               ''Name='' @ appName,
               ''Comment=App for '' @ appName,
               ''Exec='' @ path_join P [optPath, executableName] @ '' %U'',
               ''Icon='' @ iconPath,
               ''Terminal=false'',
               ''Categories=Network;WebBrowser;'',
               ''StartupWMClass='' @ cleanName,
               ''StartupNotify=true'',
               ''Actions='',
               ''Keywords=messenger;chat;'',
               ''X-GNOME-UsesNotifications=true'']
      in
      io_bind (fs_call W (EnsureDir desktopDir)) (\<lambda>_.
      io_bind (fs_call W (WriteFile desktopFileDest updatedDesktopContent)) (\<lambda>_.
      io_bind (fs_call W (Chmod desktopFileDest 493)) (\<lambda>_.
      io_bind (log_info [Txt ([CHR 0xE2, CHR 0x9C, CHR 0x85] @ '' Installed '' @ appName
                              @ '' to '' @ optPath)]) (\<lambda>_.
      io_bind (log_info [Txt ([CHR 0xE2, CHR 0x9C, CHR 0x85]
                              @ '' Desktop launcher installed to '' @ desktopFileDest)]) (\<lambda>_.
      log_info [Txt (''You can now launch '' @ appName
                     @ '' from your application menu!'')]))))))))"

definition installLinuxApp ::
  "host \<Rightarrow> pathlib \<Rightarrow> world \<Rightarrow> string \<Rightarrow> string \<Rightarrow> unit io" where
  "installLinuxApp H P W appPath appName =
     io_catch (installLinuxApp_try H P W appPath appName)
       (\<lambda>err.
          io_bind (log_warn [Txt ''Failed to install app to /opt:'', Err err]) (\<lambda>_.
          log_info [Txt ''You can manually copy the app to /opt and the .desktop file to ~/.local/share/applications/'']))"

subsection \<open>\<^verbatim>\<open>getOSRunHelp\<close>\<close>

definition getOSRunHelp :: "string option \<Rightarrow> string" where
  "getOSRunHelp platform' =
     (if platform' = Some ''win32'' then ''the contained .exe file.''
      else if platform' = Some ''linux''
      then ''the contained executable file (prefixing with ./ if necessary)\<newline>A .desktop launcher file has been created in the app folder for your convenience.''
      else if platform' = Some ''darwin'' then ''the app bundle.''
      else [])"

section \<open>\<^verbatim>\<open>buildNativefierApp\<close>\<close>

text \<open>
  The orchestrator is one function in the source. It is embedded as the sequence of its
  stages, each a definition of its own in the order of the source, so that a property of
  one stage can be stated on that stage.
\<close>

definition maintenance_notice :: string where
  "maintenance_notice =
     ''\<newline>\<newline>    Hi! Nativefier is minimally maintained these days, and needs more hands.\<newline>''
     @ ''    If you have the time & motivation, help with bugfixes and maintenance is VERY welcome.\<newline>''
     @ ''    Please go to https://github.com/nativefier/nativefier and help how you can. Thanks.\<newline>\<newline>''"

text \<open>
  \<^verbatim>\<open>if (!rawOptions.out) { rawOptions.out = path.join(process.cwd(), 'output-apps'); }\<close>
  \<^verbatim>\<open>let finalOutDirectory = rawOptions.out;\<close>
  \<open>defaultOut\<close> is the value both have after these two statements.
\<close>

definition defaultOut :: "host \<Rightarrow> pathlib \<Rightarrow> RawOptions \<Rightarrow> string" where
  "defaultOut H P rawOptions =
     (case RawOptions.out rawOptions of
        None \<Rightarrow> path_join P [process_cwd H, ''output-apps'']
      | Some d \<Rightarrow> if d = [] then path_join P [process_cwd H, ''output-apps''] else d)"

text \<open>
  The block \<^verbatim>\<open>if (isUpgrade(rawOptions)) { ... }\<close>: it yields the request and
  \<^verbatim>\<open>finalOutDirectory\<close> as they are after it.
\<close>

definition upgradeStage ::
  "world \<Rightarrow> collaborators \<Rightarrow> RawOptions \<Rightarrow> string \<Rightarrow> (RawOptions \<times> string) io" where
  "upgradeStage W C rawOptions finalOutDirectory =
     (case isUpgrade rawOptions of
        (True, rawOptions1) \<Rightarrow>
          (case findUpgradeApp C (RawOptions.upgradeFrom rawOptions1) of
             None \<Rightarrow> io_throw (OldAppNotFound (RawOptions.upgradeFrom rawOptions1))
           | Some oldApp \<Rightarrow>
               (let rawOptions2 = useOldAppOptions C rawOptions1 oldApp
                in if RawOptions.out rawOptions2 = None
                      \<and> truthy_flag (RawOptions.overwrite rawOptions2)
                   then io_bind (getTempDir W ''appUpgrade'' 493) (\<lambda>tmp.
                          io_return (rawOptions2\<lparr>RawOptions.out := Some tmp\<rparr>, appRoot oldApp))
                   else io_return (rawOptions2, finalOutDirectory)))
      | (False, rawOptions1) \<Rightarrow> io_return (rawOptions1, finalOutDirectory))"

text \<open>The result of a collaborator, as a computation.\<close>

definition io_result :: "error + 'a \<Rightarrow> 'a io" where
  "io_result r tr = (r, tr)"

text \<open>
  From the start of \<^verbatim>\<open>buildNativefierApp\<close> to \<^verbatim>\<open>const options = await getOptions(rawOptions)\<close>.
\<close>

definition resolveRequest ::
  "host \<Rightarrow> pathlib \<Rightarrow> world \<Rightarrow> collaborators \<Rightarrow> RawOptions
     \<Rightarrow> (RawOptions \<times> string \<times> AppOptions) io" where
  "resolveRequest H P W C rawOptions =
     io_bind (if truthy_flag (RawOptions.quiet rawOptions) then emit SetLevelSilent
              else io_return ()) (\<lambda>_.
     io_bind (log_warn [Txt maintenance_notice]) (\<lambda>_.
     io_bind (log_info [Txt ''\<newline>Processing options...'']) (\<lambda>_.
     io_bind (upgradeStage W C
                (rawOptions\<lparr>RawOptions.out := Some (defaultOut H P rawOptions)\<rparr>)
                (defaultOut H P rawOptions)) (\<lambda>(rawOptions1, finalOutDirectory).
     io_bind (io_result (getOptions C rawOptions1)) (\<lambda>options.
     io_return (rawOptions1, finalOutDirectory, options))))))"

text \<open>
  \<^verbatim>\<open>if (options.packager.platform === 'darwin' && isWindows()) { if (!isWindowsAdmin()) { throw ... } }\<close>
\<close>

definition platformGuard :: "host \<Rightarrow> AppOptions \<Rightarrow> unit io" where
  "platformGuard H options =
     (if platform (packager options) = Some ''darwin'' \<and> isWindows H
      then (if \<not> isWindowsAdmin H then io_throw AdminRequired else io_return ())
      else io_return ())"

text \<open>
  From \<^verbatim>\<open>Preparing Electron app...\<close> to the check of the app path: staging, icons,
  the constraint filter, packaging, and the normalization of the engine's result.
\<close>

definition stageAndPackage ::
  "host \<Rightarrow> pathlib \<Rightarrow> world \<Rightarrow> collaborators \<Rightarrow> RawOptions \<Rightarrow> AppOptions
     \<Rightarrow> (AppOptions \<times> string) io" where
  "stageAndPackage H P W C rawOptions options =
     io_bind (log_info [Txt ''\<newline>Preparing Electron app...'']) (\<lambda>_.
     io_bind (getTempDir W ''app'' 493) (\<lambda>tmpPath.
     io_bind (emit (PrepareElectronApp (dir (packager options)) tmpPath)) (\<lambda>_.
     io_bind (case prepareElectronApp C (dir (packager options)) tmpPath options of
                None \<Rightarrow> io_return ()
              | Some e \<Rightarrow> io_throw e) (\<lambda>_.
     io_bind (log_info [Txt ''\<newline>Converting icons...'']) (\<lambda>_.
     io_bind (emit ConvertIcon) (\<lambda>_.
     let options1 =
           convertIconIfNecessary C (options\<lparr>packager := (packager options)\<lparr>dir := tmpPath\<rparr>\<rparr>)
     in
     io_bind (copyIconsIfNecessary P W options1 tmpPath) (\<lambda>_.
     let options2 =
           options1\<lparr>packager := (packager options1)
                       \<lparr>quiet := \<not> truthy_flag (RawOptions.verbose rawOptions)\<rparr>\<rparr>
     in
     io_bind (log_info [Txt ''\<newline>Packaging... This will take a few seconds, maybe minutes if the requested Electron isn't cached yet...'']) (\<lambda>_.
     io_bind (trimUnprocessableOptions H options2) (\<lambda>options3.
     io_bind (emit InitializeProxy) (\<lambda>_.
     io_bind (emit (ElectronPackager (packager options3))) (\<lambda>_.
     io_bind (io_result (electronPackager C (packager options3))) (\<lambda>appPathArray.
     io_bind (log_info [Txt ''\<newline>Finalizing build...'']) (\<lambda>_.
     io_bind (getAppPath appPathArray) (\<lambda>appPath.
     io_bind (requireAppPath appPath) (\<lambda>appPath1.
     io_return (options3, appPath1))))))))))))))))"

text \<open>
  The block \<^verbatim>\<open>if (options.packager.upgrade && options.packager.upgradeFrom && options.packager.overwrite) { ... }\<close>:
  it yields \<^verbatim>\<open>appPath\<close> as it is after it.
\<close>

definition relocateUpgrade ::
  "pathlib \<Rightarrow> world \<Rightarrow> AppOptions \<Rightarrow> string \<Rightarrow> string \<Rightarrow> string io" where
  "relocateUpgrade P W options finalOutDirectory appPath =
     (if upgrade (packager options) \<and> truthy_string (upgradeFrom (packager options))
         \<and> truthy_flag (overwrite (packager options))
      then
        (let bundle = (case name (packager options) of Some n \<Rightarrow> n | None \<Rightarrow> []) @ ''.app''
         in
         io_bind
           (if platform (packager options) = Some ''darwin''
            then
              io_bind
                (io_catch
                   (fs_call W (Remove (path_join P [finalOutDirectory, bundle, ''Contents'', ''Frameworks''])))
                   (\<lambda>err. log_warn [Txt ''Encountered an error when attempting to pre-delete old frameworks:'', Err err])) (\<lambda>_.
              fs_call W (Copy (path_join P [appPath, bundle])
                              (path_join P [finalOutDirectory, bundle])
                              (overwrite (packager options)) (Some True)))
            else
              fs_call W (Copy appPath finalOutDirectory
                              (overwrite (packager options)) (Some True))) (\<lambda>_.
         io_bind (fs_call W (Remove appPath)) (\<lambda>_.
         io_return finalOutDirectory)))
      else io_return appPath)"

text \<open>
  The block \<^verbatim>\<open>if (options.packager.platform === 'linux' && options.packager.name && options.packager.targetUrl) { ... }\<close>.
\<close>

definition linuxIntegration ::
  "host \<Rightarrow> pathlib \<Rightarrow> world \<Rightarrow> AppOptions \<Rightarrow> string \<Rightarrow> unit io" where
  "linuxIntegration H P W options appPath =
     (if platform (packager options) = Some ''linux''
         \<and> truthy_string (name (packager options))
         \<and> truthy_string (targetUrl (packager options))
      then
        (case (name (packager options), targetUrl (packager options)) of
           (Some appName, Some url) \<Rightarrow>
             io_bind (createLinuxDesktopLauncher P W appPath appName url) (\<lambda>_.
             installLinuxApp H P W appPath appName)
         | _ \<Rightarrow> io_return ())
      else io_return ())"

text \<open>From the Linux block to \<^verbatim>\<open>return appPath\<close>.\<close>

definition finishBuild ::
  "host \<Rightarrow> pathlib \<Rightarrow> world \<Rightarrow> AppOptions \<Rightarrow> string \<Rightarrow> string io" where
  "finishBuild H P W options appPath =
     io_bind (linuxIntegration H P W options appPath) (\<lambda>_.
     io_bind (log_info [Txt (''App built to '' @ appPath
                             @ '', move to wherever it makes sense for you and run ''
                             @ getOSRunHelp (platform (packager options)))]) (\<lambda>_.
     io_return appPath))"

definition buildNativefierApp ::
  "host \<Rightarrow> pathlib \<Rightarrow> world \<Rightarrow> collaborators \<Rightarrow> RawOptions \<Rightarrow> string io" where
  "buildNativefierApp H P W C rawOptions =
     io_bind (resolveRequest H P W C rawOptions) (\<lambda>(rawOptions1, finalOutDirectory, options).
     io_bind (platformGuard H options) (\<lambda>_.
     io_bind (stageAndPackage H P W C rawOptions1 options) (\<lambda>(options1, appPath).
     io_bind (relocateUpgrade P W options1 finalOutDirectory appPath) (\<lambda>appPath1.
     finishBuild H P W options1 appPath1))))"

section \<open>A concrete host, world and collaborators\<close>

text \<open>
  The properties below hold for every path module, world, host and collaborator. Runs on
  concrete inputs use the ones of this section.
\<close>

subsection \<open>The POSIX flavour of Node's \<^verbatim>\<open>path\<close>\<close>

text \<open>
  After \<^verbatim>\<open>lib/path.js\<close> of Node: \<^verbatim>\<open>join\<close> glues the non-empty segments with a slash
  and normalizes (empty and \<^verbatim>\<open>.\<close> segments dropped, \<^verbatim>\<open>..\<close> resolved, a trailing slash
  kept); \<^verbatim>\<open>dirname\<close> cuts at the last slash that is followed by a name;
  \<^verbatim>\<open>basename\<close> is the last name; \<^verbatim>\<open>extname\<close> is the last name from its last dot on,
  unless that dot starts the name or the name is \<^verbatim>\<open>..\<close>.
\<close>

fun split_on :: "char \<Rightarrow> string \<Rightarrow> string list" where
  "split_on sep [] = [[]]"
| "split_on sep (c # cs) =
     (if c = sep then [] # split_on sep cs
      else (case split_on sep cs of [] \<Rightarrow> [[c]] | seg # segs \<Rightarrow> (c # seg) # segs))"

fun normalize_segments :: "bool \<Rightarrow> string list \<Rightarrow> string list \<Rightarrow> string list" where
  "normalize_segments isAbsolute acc [] = rev acc"
| "normalize_segments isAbsolute acc (seg # segs) =
     (if seg = [] \<or> seg = ''.'' then normalize_segments isAbsolute acc segs
      else if seg = ''..'' then
        (case acc of
           [] \<Rightarrow> normalize_segments isAbsolute (if isAbsolute then [] else [''..'']) segs
         | lastSeg # below \<Rightarrow>
             if lastSeg = ''..'' then normalize_segments isAbsolute (''..'' # acc) segs
             else normalize_segments isAbsolute below segs)
      else normalize_segments isAbsolute (seg # acc) segs)"

definition posix_normalize :: "string \<Rightarrow> string" where
  "posix_normalize p =
     (if p = [] then ''.''
      else
        (let isAbsolute = (hd p = CHR ''/'');
             trailingSeparator = (last p = CHR ''/'');
             body = join_with ''/'' (normalize_segments isAbsolute [] (split_on CHR ''/'' p));
             body1 = (if body = [] \<and> \<not> isAbsolute then ''.'' else body);
             body2 = (if body1 \<noteq> [] \<and> trailingSeparator then body1 @ ''/'' else body1)
         in if isAbsolute then ''/'' @ body2 else body2))"

definition posix_join :: "string list \<Rightarrow> string" where
  "posix_join segments =
     (let joined = join_with ''/'' (filter (\<lambda>seg. seg \<noteq> []) segments)
      in if joined = [] then ''.'' else posix_normalize joined)"

definition posix_dirname :: "string \<Rightarrow> string" where
  "posix_dirname p =
     (if p = [] then ''.''
      else
        (let hasRoot = (hd p = CHR ''/'');
             upto = dropWhile (\<lambda>c. c \<noteq> CHR ''/'')
                      (dropWhile (\<lambda>c. c = CHR ''/'') (rev (tl p)));
             end = length upto
         in if end = 0 then (if hasRoot then ''/'' else ''.'')
            else if hasRoot \<and> end = 1 then ''//''
            else take end p))"

definition posix_basename :: "string \<Rightarrow> string" where
  "posix_basename p =
     rev (takeWhile (\<lambda>c. c \<noteq> CHR ''/'') (dropWhile (\<lambda>c. c = CHR ''/'') (rev p)))"

definition posix_extname :: "string \<Rightarrow> string" where
  "posix_extname p =
     (let base = posix_basename p;
          afterDot = takeWhile (\<lambda>c. c \<noteq> CHR ''.'') (rev base)
      in if length afterDot = length base then []
         else
           (let startDot = length base - length afterDot - 1
            in if startDot = 0 \<or> base = ''..'' then [] else drop startDot base))"


definition posix :: pathlib where
  "posix = \<lparr>path_join = posix_join, path_dirname = posix_dirname,
             path_basename = posix_basename, path_extname = posix_extname\<rparr>"

subsection \<open>Worlds and hosts\<close>

text \<open>
  \<open>world_ok\<close>: every call succeeds, directories are empty, subprocesses exit with 0.
  \<open>world_failing op\<close>: the same, but the file-system call \<open>op\<close> throws.
\<close>

definition world_ok :: world where
  "world_ok = \<lparr>fs_outcome = (\<lambda>_ _. None),
               readdir_outcome = (\<lambda>_ _. Inr []),
               spawn_status = (\<lambda>_ _ _. Some 0),
               tempdir_outcome = (\<lambda>_ prefix _. ''/tmp/'' @ prefix)\<rparr>"

definition world_failing :: "fs_op \<Rightarrow> world" where
  "world_failing op =
     world_ok\<lparr>fs_outcome := (\<lambda>_ op'. if op' = op then Some (Thrown ''EACCES'') else None)\<rparr>"

definition linux_host :: host where
  "linux_host = \<lparr>process_platform = ''linux'', hasWine = False, isWindowsAdmin = False,
                 process_cwd = ''/home/user'', process_getuid = Some 1000,
                 process_getgid = Some 1000, os_homedir = ''/home/user''\<rparr>"

definition windows_host :: host where
  "windows_host = \<lparr>process_platform = ''win32'', hasWine = False, isWindowsAdmin = False,
                   process_cwd = ''/work'', process_getuid = None,
                   process_getgid = None, os_homedir = ''/work''\<rparr>"

subsection \<open>Collaborators\<close>

text \<open>A field of the request, or else the saved one.\<close>

definition or_saved :: "'a option \<Rightarrow> 'a option \<Rightarrow> 'a option" where
  "or_saved given saved = (case given of None \<Rightarrow> saved | Some v \<Rightarrow> Some v)"

text \<open>
  Modelled from the spec: the helper \<^verbatim>\<open>useOldAppOptions\<close> of
  \<^verbatim>\<open>helpers/upgrade/upgrade\<close> is not among the sources. The spec: "Merge
  PriorInstall.savedConfig into raw as defaults (explicit new fields win)". A field the
  request leaves unset takes the saved value.
\<close>

definition useOldAppOptions_spec :: "RawOptions \<Rightarrow> UpgradeAppInfo \<Rightarrow> RawOptions" where
  "useOldAppOptions_spec rawOptions oldApp =
     \<lparr>RawOptions.targetUrl = or_saved (RawOptions.targetUrl rawOptions) (RawOptions.targetUrl (savedOptions oldApp)),
      name = or_saved (RawOptions.name rawOptions) (RawOptions.name (savedOptions oldApp)),
      platform = or_saved (RawOptions.platform rawOptions) (RawOptions.platform (savedOptions oldApp)),
      icon = or_saved (RawOptions.icon rawOptions) (RawOptions.icon (savedOptions oldApp)),
      out = or_saved (RawOptions.out rawOptions) (RawOptions.out (savedOptions oldApp)),
      overwrite = or_saved (RawOptions.overwrite rawOptions) (RawOptions.overwrite (savedOptions oldApp)),
      upgrade = or_saved (RawOptions.upgrade rawOptions) (RawOptions.upgrade (savedOptions oldApp)),
      upgradeFrom = or_saved (RawOptions.upgradeFrom rawOptions) (RawOptions.upgradeFrom (savedOptions oldApp)),
      quiet = or_saved (RawOptions.quiet rawOptions) (RawOptions.quiet (savedOptions oldApp)),
      verbose = or_saved (RawOptions.verbose rawOptions) (RawOptions.verbose (savedOptions oldApp))\<rparr>"

text \<open>
  The empty request; a prior install at \<^verbatim>\<open>/opt/OldApp\<close>; a resolver that copies the
  fields of the request; a packaging engine that answers one path under the output
  directory; and the collaborators made of them.
\<close>

definition request :: RawOptions where
  "request = \<lparr>RawOptions.targetUrl = None, name = None, platform = None, icon = None,
              out = None, overwrite = None, upgrade = None, upgradeFrom = None,
              quiet = None, verbose = None\<rparr>"

definition old_app :: UpgradeAppInfo where
  "old_app = \<lparr>appRoot = ''/opt/OldApp'',
              savedOptions = request\<lparr>RawOptions.targetUrl := Some ''https://example.com'',
                                     RawOptions.name := Some ''OldApp'',
                                     RawOptions.platform := Some ''linux''\<rparr>\<rparr>"

definition resolve_fields :: "RawOptions \<Rightarrow> error + AppOptions" where
  "resolve_fields rawOptions =
     Inr \<lparr>packager =
            \<lparr>dir = ''/nativefier/app'',
             out = RawOptions.out rawOptions,
             platform = RawOptions.platform rawOptions,
             name = RawOptions.name rawOptions,
             targetUrl = RawOptions.targetUrl rawOptions,
             icon = RawOptions.icon rawOptions,
             overwrite = RawOptions.overwrite rawOptions,
             upgrade = (RawOptions.upgrade rawOptions \<noteq> None),
             upgradeFrom = RawOptions.upgradeFrom rawOptions,
             quiet = False,
             appCopyright = None, appVersion = None, buildVersion = None,
             win32metadata = None\<rparr>,
          nativefier = \<lparr>tray = Some ''false''\<rparr>,
          extra = []\<rparr>"

definition package_to_out :: "PackagerOptions \<Rightarrow> error + packager_result" where
  "package_to_out p =
     Inr (PathList
            [posix_join
               [case out p of Some d \<Rightarrow> d | None \<Rightarrow> ''.'',
                (case name p of Some n \<Rightarrow> n | None \<Rightarrow> ''app'') @ ''-''
                  @ (case platform p of Some pf \<Rightarrow> pf | None \<Rightarrow> ''linux'') @ ''-x64'']])"

definition example_collaborators :: collaborators where
  "example_collaborators =
     \<lparr>findUpgradeApp = (\<lambda>from. if from = Some ''/opt/OldApp'' then Some old_app else None),
      useOldAppOptions = useOldAppOptions_spec,
      getOptions = resolve_fields,
      prepareElectronApp = (\<lambda>_ _ _. None),
      convertIconIfNecessary = (\<lambda>options. options),
      electronPackager = package_to_out\<rparr>"

definition upgrade_request :: RawOptions where
  "upgrade_request = request\<lparr>RawOptions.upgrade := Some (UpgradePath ''/opt/OldApp''),
                             RawOptions.overwrite := Some True\<rparr>"

text \<open>
  A resolved configuration with nothing set, to be updated field by field; and the
  configuration of an overwrite-upgrade of the prior install for a target platform.
\<close>

definition plain_packager :: PackagerOptions where
  "plain_packager =
     \<lparr>dir = ''/nativefier/app'', out = None, platform = None, name = None, targetUrl = None,
      icon = None, overwrite = None, upgrade = False, upgradeFrom = None, quiet = False,
      appCopyright = None, appVersion = None, buildVersion = None, win32metadata = None\<rparr>"

definition plain_options :: AppOptions where
  "plain_options = \<lparr>packager = plain_packager, nativefier = \<lparr>tray = None\<rparr>, extra = []\<rparr>"

definition upgraded_options :: "string \<Rightarrow> AppOptions" where
  "upgraded_options platform' =
     plain_options\<lparr>packager := plain_packager
       \<lparr>platform := Some platform', name := Some ''OldApp'', overwrite := Some True,
        upgrade := True, upgradeFrom := Some ''/opt/OldApp''\<rparr>\<rparr>"

text \<open>\<open>world_readonly\<close>: every \<^verbatim>\<open>fs.writeFile\<close> throws; all else as in \<open>world_ok\<close>.\<close>

definition world_readonly :: world where
  "world_readonly =
     world_ok\<lparr>fs_outcome :=
       (\<lambda>_ op. case op of WriteFile f c \<Rightarrow> Some (Thrown ''EACCES'') | _ \<Rightarrow> None)\<rparr>"

text \<open>
  Resolved configurations for a Linux build of \<^verbatim>\<open>MyApp\<close>, for a Windows build with
  an icon and version fields set, and for a macOS build; and the request for a macOS
  build.
\<close>

definition linux_options :: AppOptions where
  "linux_options =
     plain_options\<lparr>packager := plain_packager
       \<lparr>platform := Some ''linux'', name := Some ''MyApp'',
        targetUrl := Some ''https://example.com''\<rparr>\<rparr>"

definition windows_build_options :: AppOptions where
  "windows_build_options =
     plain_options\<lparr>packager := plain_packager
       \<lparr>platform := Some ''win32'', name := Some ''MyApp'', icon := Some ''/x/icon.ico'',
        appCopyright := Some ''(c) 2024'', appVersion := Some ''1.2.3''\<rparr>\<rparr>"

definition darwin_options :: AppOptions where
  "darwin_options =
     plain_options\<lparr>packager := plain_packager
       \<lparr>out := Some ''/out'', platform := Some ''darwin'', name := Some ''MyApp'',
        targetUrl := Some ''https://example.com''\<rparr>,
       nativefier := \<lparr>tray = Some ''false''\<rparr>\<rparr>"

definition darwin_request :: RawOptions where
  "darwin_request = request\<lparr>RawOptions.platform := Some ''darwin'',
                            RawOptions.name := Some ''MyApp'',
                            RawOptions.targetUrl := Some ''https://example.com''\<rparr>"

section \<open>Reading a run\<close>

text \<open>
  The files a run called \<^verbatim>\<open>fs.writeFile\<close> for, and the staging calls it made, in order.
\<close>

definition written_files :: "event list \<Rightarrow> string list" where
  "written_files tr = concat (map (\<lambda>ev. case ev of Fs (WriteFile f c) \<Rightarrow> [f] | _ \<Rightarrow> []) tr)"

definition staged :: "event list \<Rightarrow> (string \<times> string) list" where
  "staged tr =
     concat (map (\<lambda>ev. case ev of PrepareElectronApp src dest \<Rightarrow> [(src, dest)] | _ \<Rightarrow> []) tr)"

section \<open>Properties\<close>

subsection \<open>Unfolding\<close>

lemmas io_defs = io_return_def io_throw_def io_bind_def io_catch_def emit_def log_info_def
  log_warn_def fs_call_def fs_readdir_def spawnSync_def getTempDir_def io_result_def

lemmas fixture_defs = posix_def posix_join_def posix_normalize_def posix_dirname_def
  posix_basename_def posix_extname_def world_ok_def world_failing_def linux_host_def
  windows_host_def plain_packager_def plain_options_def world_readonly_def

lemmas build_defs = buildNativefierApp_def resolveRequest_def upgradeStage_def isUpgrade_def
  platformGuard_def stageAndPackage_def relocateUpgrade_def finishBuild_def
  linuxIntegration_def createLinuxDesktopLauncher_def createLinuxDesktopLauncher_try_def
  installLinuxApp_def installLinuxApp_try_def copyIconsIfNecessary_def
  trimUnprocessableOptions_def getAppPath_def requireAppPath_def defaultOut_def
  truthy_string_def truthy_flag_def isWindows_def needsSudo_def Let_def

lemmas collaborator_defs = example_collaborators_def useOldAppOptions_spec_def or_saved_def
  request_def old_app_def resolve_fields_def package_to_out_def upgrade_request_def

subsection \<open>The helpers\<close>

text \<open>
  C4. Path-result normalization over the list the packaging engine returns: on an empty
  list \<open>getAppPath\<close> gives \<^verbatim>\<open>undefined\<close> and the build throws "App Path could not be
  determined" (the spec's directory-exists failure); a single-element list yields that
  element and logs nothing; a list of more than one element yields its first element and
  logs one warning that shows the list. The last two conjuncts take these lists through
  the check \<^verbatim>\<open>if (!appPath)\<close> of the build as well: the build goes on with the element,
  a path being a non-empty string.
\<close>

theorem getAppPath_normalises:
  "io_bind (getAppPath (PathList [])) requireAppPath tr = (Inl AppPathUndetermined, tr)
   \<and> getAppPath (PathList [p]) tr = (Inr (Some p), tr)
   \<and> getAppPath (PathList (p # q # ps)) tr =
       (Inr (Some p),
        tr @ [Log Warn [Txt ''Warning: This should not be happening, packaged app path contains more than one element:'',
                        Paths (p # q # ps)]])
   \<and> (p \<noteq> [] \<longrightarrow>
        io_bind (getAppPath (PathList [p])) requireAppPath tr = (Inr p, tr))
   \<and> (p \<noteq> [] \<longrightarrow>
        io_bind (getAppPath (PathList (p # q # ps))) requireAppPath tr =
          (Inr p,
           tr @ [Log Warn [Txt ''Warning: This should not be happening, packaged app path contains more than one element:'',
                           Paths (p # q # ps)]]))"
  by (simp add: getAppPath_def requireAppPath_def io_bind_def io_return_def io_throw_def
      log_warn_def emit_def truthy_string_def)

theorem getAppPath_normalises_witness:
  "io_bind (getAppPath (PathList [])) requireAppPath [] = (Inl AppPathUndetermined, [])
   \<and> io_bind (getAppPath (PathList [''/out/MyApp-linux-x64''])) requireAppPath []
       = (Inr ''/out/MyApp-linux-x64'', [])
   \<and> io_bind (getAppPath (PathList [''/out/MyApp-linux-x64'', ''/out/MyApp-linux-arm64'']))
         requireAppPath []
       = (Inr ''/out/MyApp-linux-x64'',
          [Log Warn [Txt ''Warning: This should not be happening, packaged app path contains more than one element:'',
                     Paths [''/out/MyApp-linux-x64'', ''/out/MyApp-linux-arm64'']]])"
  using getAppPath_normalises [where p = "''/out/MyApp-linux-x64''"
      and q = "''/out/MyApp-linux-arm64''" and ps = "[]" and tr = "[]"]
  by simp

text \<open>
  C5. Upgrade normalization: when the upgrade field is a non-empty string, \<open>isUpgrade\<close>
  stores that string in \<open>upgradeFrom\<close>, sets the upgrade field to \<^verbatim>\<open>true\<close> and answers
  true; when the field is absent or the empty string, the request is unchanged and the
  answer is false.
\<close>

theorem isUpgrade_normalises:
  "(RawOptions.upgrade r = Some (UpgradePath p) \<and> p \<noteq> [] \<longrightarrow>
      isUpgrade r = (True, r\<lparr>RawOptions.upgradeFrom := Some p,
                              RawOptions.upgrade := Some (UpgradeFlag True)\<rparr>))
   \<and> (RawOptions.upgrade r = None \<or> RawOptions.upgrade r = Some (UpgradePath []) \<longrightarrow>
      isUpgrade r = (False, r))"
  by (auto simp add: isUpgrade_def)

theorem isUpgrade_normalises_witness:
  "isUpgrade \<lparr>RawOptions.targetUrl = None, name = None, platform = None, icon = None,
             out = None, overwrite = None, upgrade = Some (UpgradePath ''/some/path''),
             upgradeFrom = None, quiet = None, verbose = None\<rparr>
     = (True, \<lparr>RawOptions.targetUrl = None, name = None, platform = None, icon = None,
              out = None, overwrite = None, upgrade = Some (UpgradeFlag True),
              upgradeFrom = Some ''/some/path'', quiet = None, verbose = None\<rparr>)
   \<and> isUpgrade \<lparr>RawOptions.targetUrl = None, name = None, platform = None, icon = None,
             out = None, overwrite = None, upgrade = None,
             upgradeFrom = None, quiet = None, verbose = None\<rparr>
     = (False, \<lparr>RawOptions.targetUrl = None, name = None, platform = None, icon = None,
              out = None, overwrite = None, upgrade = None,
              upgradeFrom = None, quiet = None, verbose = None\<rparr>)"
  using
    isUpgrade_normalises [of "\<lparr>RawOptions.targetUrl = None, name = None, platform = None, icon = None,
             out = None, overwrite = None, upgrade = Some (UpgradePath ''/some/path''),
             upgradeFrom = None, quiet = None, verbose = None\<rparr>" "''/some/path''"]
    isUpgrade_normalises [of "\<lparr>RawOptions.targetUrl = None, name = None, platform = None, icon = None,
             out = None, overwrite = None, upgrade = None,
             upgradeFrom = None, quiet = None, verbose = None\<rparr>" "[]"]
  by simp

text \<open>
  C6. Icon copying. With no icon configured (unset or empty) nothing happens. For a
  \<^verbatim>\<open>darwin\<close> or \<^verbatim>\<open>mas\<close> target with tray mode other than \<^verbatim>\<open>'false'\<close>, the one
  file-system call is the copy of \<^verbatim>\<open>tray-icon.png\<close> from the icon's directory to
  \<^verbatim>\<open>icon.png\<close> in the staged path; with tray mode \<^verbatim>\<open>'false'\<close> nothing is copied. For
  every other target (Windows and Linux among them) the one call is the copy of the icon
  file to \<^verbatim>\<open>icon<ext>\<close> in the staged path, \<^verbatim>\<open><ext>\<close> being the icon's own extension.
  A copy that throws makes the function throw.
\<close>

theorem copyIconsIfNecessary_cases:
  "(\<not> truthy_string (icon (packager options)) \<longrightarrow>
      copyIconsIfNecessary P W options appPath tr = (Inr (), tr))
   \<and> (icon (packager options) = Some iconFile \<and> iconFile \<noteq> []
        \<and> (platform (packager options) = Some ''darwin''
             \<or> platform (packager options) = Some ''mas'')
        \<and> tray (nativefier options) \<noteq> Some ''false'' \<longrightarrow>
      copyIconsIfNecessary P W options appPath tr =
        fs_call W (Copy (path_dirname P iconFile @ ''/tray-icon.png'')
                        (path_join P [appPath, ''icon.png'']) None None) tr)
   \<and> (icon (packager options) = Some iconFile \<and> iconFile \<noteq> []
        \<and> (platform (packager options) = Some ''darwin''
             \<or> platform (packager options) = Some ''mas'')
        \<and> tray (nativefier options) = Some ''false'' \<longrightarrow>
      copyIconsIfNecessary P W options appPath tr = (Inr (), tr))
   \<and> (icon (packager options) = Some iconFile \<and> iconFile \<noteq> []
        \<and> platform (packager options) \<noteq> Some ''darwin''
        \<and> platform (packager options) \<noteq> Some ''mas'' \<longrightarrow>
      copyIconsIfNecessary P W options appPath tr =
        fs_call W (Copy iconFile (path_join P [appPath, ''icon'' @ path_extname P iconFile])
                        None None) tr)"
  by (auto simp add: copyIconsIfNecessary_def truthy_string_def io_return_def
      split: option.splits)

theorem copyIconsIfNecessary_cases_witness:
  "copyIconsIfNecessary posix world_ok plain_options ''/dest'' [] = (Inr (), [])
   \<and> copyIconsIfNecessary posix world_ok
        (plain_options\<lparr>packager := plain_packager\<lparr>platform := Some ''darwin'', icon := Some ''/x/icon.icns''\<rparr>,
                        nativefier := \<lparr>tray = Some ''true''\<rparr>\<rparr>) ''/dest'' []
       = (Inr (), [Fs (Copy ''/x/tray-icon.png'' ''/dest/icon.png'' None None)])
   \<and> copyIconsIfNecessary posix world_ok
        (plain_options\<lparr>packager := plain_packager\<lparr>platform := Some ''darwin'', icon := Some ''/x/icon.icns''\<rparr>,
                        nativefier := \<lparr>tray = Some ''false''\<rparr>\<rparr>) ''/dest'' []
       = (Inr (), [])
   \<and> copyIconsIfNecessary posix world_ok
        (plain_options\<lparr>packager := plain_packager\<lparr>platform := Some ''linux'', icon := Some ''/x/icon.png''\<rparr>\<rparr>)
        ''/dest'' []
       = (Inr (), [Fs (Copy ''/x/icon.png'' ''/dest/icon.png'' None None)])"
  using
    copyIconsIfNecessary_cases [where options = plain_options and P = posix and W = world_ok
      and appPath = "''/dest''" and tr = "[]" and iconFile = "[]"]
    copyIconsIfNecessary_cases [where options = "plain_options\<lparr>packager := plain_packager\<lparr>platform := Some ''darwin'', icon := Some ''/x/icon.icns''\<rparr>,
                        nativefier := \<lparr>tray = Some ''true''\<rparr>\<rparr>"
      and P = posix and W = world_ok and appPath = "''/dest''" and tr = "[]"
      and iconFile = "''/x/icon.icns''"]
    copyIconsIfNecessary_cases [where options = "plain_options\<lparr>packager := plain_packager\<lparr>platform := Some ''darwin'', icon := Some ''/x/icon.icns''\<rparr>,
                        nativefier := \<lparr>tray = Some ''false''\<rparr>\<rparr>"
      and P = posix and W = world_ok and appPath = "''/dest''" and tr = "[]"
      and iconFile = "''/x/icon.icns''"]
    copyIconsIfNecessary_cases [where options = "plain_options\<lparr>packager := plain_packager\<lparr>platform := Some ''linux'', icon := Some ''/x/icon.png''\<rparr>\<rparr>"
      and P = posix and W = world_ok and appPath = "''/dest''" and tr = "[]"
      and iconFile = "''/x/icon.png''"]
  by (simp add: fixture_defs truthy_string_def fs_call_def)

text \<open>
  \<^verbatim>\<open>(await fs.readdir(appPath)).find((file) => file === appName) ?? appName\<close> is
  \<^verbatim>\<open>appName\<close> whatever the directory holds.
\<close>

lemma find_same:
  "(case List.find (\<lambda>file. file = appName) files of Some file \<Rightarrow> file | None \<Rightarrow> appName) = appName"
  by (induction files) simp_all

text \<open>
  C7, as amended. When the directory can be read and the file written and its mode set,
  \<open>createLinuxDesktopLauncher\<close> writes the file \<^verbatim>\<open><appName>.desktop\<close> inside the build
  directory (the path is \<^verbatim>\<open>path.join(appPath, appName + '.desktop')\<close>), with the lines
  below, among them \<^verbatim>\<open>Name=<appName>\<close>, \<^verbatim>\<open>Comment=App for <targetUrl>\<close>, an
  \<^verbatim>\<open>Exec\<close> line ending in \<^verbatim>\<open>%U\<close>, the \<^verbatim>\<open>Icon\<close> path
  \<^verbatim>\<open>resources/app/icon.png\<close> inside the build directory and \<^verbatim>\<open>StartupWMClass\<close> with the
  app name stripped of white space; then it sets the mode \<^verbatim>\<open>0o755\<close> and logs twice.
  The witness is the run for \<^verbatim>\<open>MyApp\<close> and \<^verbatim>\<open>https://example.com\<close>.
\<close>

theorem createLinuxDesktopLauncher_writes:
  assumes "readdir_outcome W tr appPath = Inr files"
    and "desktopFilePath = path_join P [appPath, appName @ ''.desktop'']"
    and "content =
          unlines
            [''[Desktop Entry]'',
             ''Version=1.0'',
             ''Type=Application'',
             ''Name='' @ appName,
             ''Comment=App for '' @ url,
             ''Exec='' @ path_join P [appPath, path_basename P appName] @ '' %U'',
             ''Icon='' @ path_join P [appPath, ''resources'', ''app'', ''icon.png''],
             ''Terminal=false'',
             ''Categories=Network;WebBrowser;'',
             ''StartupWMClass='' @ strip_whitespace appName,
             ''StartupNotify=true'',
             ''Actions='',
             ''Keywords=messenger;chat;'',
             ''X-GNOME-UsesNotifications=true'']"
    and "fs_outcome W (tr @ [Fs (Readdir appPath)]) (WriteFile desktopFilePath content) = None"
    and "fs_outcome W (tr @ [Fs (Readdir appPath), Fs (WriteFile desktopFilePath content)])
           (Chmod desktopFilePath 493) = None"
  shows "createLinuxDesktopLauncher P W appPath appName url tr =
           (Inr (),
            tr @ [Fs (Readdir appPath),
                  Fs (WriteFile desktopFilePath content),
                  Fs (Chmod desktopFilePath 493),
                  Log Info [Txt (''Created desktop launcher at '' @ desktopFilePath)],
                  Log Info [Txt (''To install system-wide, run: cp '' @ [CHR 0x22]
                                 @ desktopFilePath @ [CHR 0x22]
                                 @ '' ~/.local/share/applications/'')]])"
  using assms
  by (simp add: createLinuxDesktopLauncher_def createLinuxDesktopLauncher_try_def io_defs
      Let_def find_same)

theorem createLinuxDesktopLauncher_writes_witness:
  "createLinuxDesktopLauncher posix world_ok ''/out/MyApp-linux-x64'' ''MyApp''
     ''https://example.com'' []
   = (Inr (),
      [Fs (Readdir ''/out/MyApp-linux-x64''),
       Fs (WriteFile ''/out/MyApp-linux-x64/MyApp.desktop''
             (unlines
                [''[Desktop Entry]'',
                 ''Version=1.0'',
                 ''Type=Application'',
                 ''Name=MyApp'',
                 ''Comment=App for https://example.com'',
                 ''Exec=/out/MyApp-linux-x64/MyApp %U'',
                 ''Icon=/out/MyApp-linux-x64/resources/app/icon.png'',
                 ''Terminal=false'',
                 ''Categories=Network;WebBrowser;'',
                 ''StartupWMClass=MyApp'',
                 ''StartupNotify=true'',
                 ''Actions='',
                 ''Keywords=messenger;chat;'',
                 ''X-GNOME-UsesNotifications=true''])),
       Fs (Chmod ''/out/MyApp-linux-x64/MyApp.desktop'' 493),
       Log Info [Txt ''Created desktop launcher at /out/MyApp-linux-x64/MyApp.desktop''],
       Log Info [Txt (''To install system-wide, run: cp '' @ [CHR 0x22]
                      @ ''/out/MyApp-linux-x64/MyApp.desktop'' @ [CHR 0x22]
                      @ '' ~/.local/share/applications/'')]])"
  using createLinuxDesktopLauncher_writes
    [where W = world_ok and P = posix and tr = "[]" and appPath = "''/out/MyApp-linux-x64''"
       and appName = "''MyApp''" and url = "''https://example.com''" and files = "[]",
     OF _ refl refl]
  by (simp add: fixture_defs unlines_def space_prefix_def space_encodings_def is_space_def)

text \<open>
  C7 as stated has the file placed beside the build directory. In the run for
  \<^verbatim>\<open>MyApp\<close> with the build directory \<^verbatim>\<open>/out/MyApp-linux-x64\<close>, the one file written
  is \<^verbatim>\<open>/out/MyApp-linux-x64/MyApp.desktop\<close>: its directory is the build directory
  itself, not \<^verbatim>\<open>/out\<close>, the directory that holds the build directory.
\<close>

theorem desktop_entry_beside_counterexample:
  "written_files
     (snd (createLinuxDesktopLauncher posix world_ok ''/out/MyApp-linux-x64'' ''MyApp''
             ''https://example.com'' []))
     = [''/out/MyApp-linux-x64/MyApp.desktop'']
   \<and> path_dirname posix ''/out/MyApp-linux-x64/MyApp.desktop'' = ''/out/MyApp-linux-x64''
   \<and> path_dirname posix ''/out/MyApp-linux-x64'' = ''/out''
   \<and> path_dirname posix ''/out/MyApp-linux-x64/MyApp.desktop''
       \<noteq> path_dirname posix ''/out/MyApp-linux-x64''"
  by (simp add: createLinuxDesktopLauncher_def createLinuxDesktopLauncher_try_def io_defs
      Let_def written_files_def fixture_defs)

subsection \<open>The stages of the orchestrator\<close>

text \<open>
  C8. In an overwrite-upgrade (\<^verbatim>\<open>upgrade\<close>, \<^verbatim>\<open>upgradeFrom\<close> and \<^verbatim>\<open>overwrite\<close> all
  truthy) for the target \<^verbatim>\<open>darwin\<close>, the stage first removes
  \<^verbatim>\<open><finalOutDirectory>/<name>.app/Contents/Frameworks\<close>. If that removal throws, one
  warning with the error is logged and the stage goes on exactly as when it succeeds:
  it copies \<^verbatim>\<open><appPath>/<name>.app\<close> over \<^verbatim>\<open><finalOutDirectory>/<name>.app\<close> with
  \<^verbatim>\<open>overwrite\<close> as configured (true here) and \<^verbatim>\<open>preserveTimestamps: true\<close>, removes
  \<^verbatim>\<open>appPath\<close> and yields \<^verbatim>\<open>finalOutDirectory\<close>. For any other target the stage starts
  with the copy of the whole build directory: the removal of the frameworks directory
  is not attempted.
\<close>

theorem relocateUpgrade_darwin:
  assumes "upgrade (packager options)"
    and "truthy_string (upgradeFrom (packager options))"
    and "truthy_flag (overwrite (packager options))"
    and "bundle = (case name (packager options) of Some n \<Rightarrow> n | None \<Rightarrow> []) @ ''.app''"
    and "frameworks = path_join P [finalOutDirectory, bundle, ''Contents'', ''Frameworks'']"
  shows
    "(platform (packager options) = Some ''darwin''
        \<and> fs_outcome W tr (Remove frameworks) = Some err \<longrightarrow>
      relocateUpgrade P W options finalOutDirectory appPath tr =
        io_bind (fs_call W (Copy (path_join P [appPath, bundle])
                                 (path_join P [finalOutDirectory, bundle])
                                 (Some True) (Some True))) (\<lambda>_.
        io_bind (fs_call W (Remove appPath)) (\<lambda>_.
        io_return finalOutDirectory))
          (tr @ [Fs (Remove frameworks),
                 Log Warn [Txt ''Encountered an error when attempting to pre-delete old frameworks:'',
                           Err err]]))
     \<and> (platform (packager options) = Some ''darwin''
        \<and> fs_outcome W tr (Remove frameworks) = None \<longrightarrow>
      relocateUpgrade P W options finalOutDirectory appPath tr =
        io_bind (fs_call W (Copy (path_join P [appPath, bundle])
                                 (path_join P [finalOutDirectory, bundle])
                                 (Some True) (Some True))) (\<lambda>_.
        io_bind (fs_call W (Remove appPath)) (\<lambda>_.
        io_return finalOutDirectory))
          (tr @ [Fs (Remove frameworks)]))
     \<and> (platform (packager options) \<noteq> Some ''darwin'' \<longrightarrow>
      relocateUpgrade P W options finalOutDirectory appPath tr =
        io_bind (fs_call W (Copy appPath finalOutDirectory (Some True) (Some True))) (\<lambda>_.
        io_bind (fs_call W (Remove appPath)) (\<lambda>_.
        io_return finalOutDirectory)) tr)"
proof -
  from assms(3) have ow: "overwrite (packager options) = Some True"
    by (simp add: truthy_flag_def split: option.splits)
  have cond: "upgrade (packager options) \<and> truthy_string (upgradeFrom (packager options))
      \<and> truthy_flag (overwrite (packager options))"
    using assms(1-3) by simp
  have failed: "io_catch (fs_call W (Remove frameworks)) h tr = h err (tr @ [Fs (Remove frameworks)])"
    if "fs_outcome W tr (Remove frameworks) = Some err" for h :: "error \<Rightarrow> unit io"
    using that by (simp add: io_catch_def fs_call_def)
  have passed: "io_catch (fs_call W (Remove frameworks)) h tr = (Inr (), tr @ [Fs (Remove frameworks)])"
    if "fs_outcome W tr (Remove frameworks) = None" for h :: "error \<Rightarrow> unit io"
    using that by (simp add: io_catch_def fs_call_def)
  have assoc: "io_bind (io_bind m f) g t = io_bind m (\<lambda>x. io_bind (f x) g) t"
    for m :: "unit io" and f :: "unit \<Rightarrow> unit io" and g :: "unit \<Rightarrow> string io" and t
    by (simp add: io_bind_def split: prod.splits sum.splits)
  have bind_def': "io_bind m f t = (case m t of (Inl e, t') \<Rightarrow> (Inl e, t') | (Inr x, t') \<Rightarrow> f x t')"
    for m :: "unit io" and f :: "unit \<Rightarrow> string io" and t
    by (simp add: io_bind_def)
  have c1: "relocateUpgrade P W options finalOutDirectory appPath tr =
        io_bind (fs_call W (Copy (path_join P [appPath, bundle])
                                 (path_join P [finalOutDirectory, bundle])
                                 (Some True) (Some True))) (\<lambda>_.
        io_bind (fs_call W (Remove appPath)) (\<lambda>_.
        io_return finalOutDirectory))
          (tr @ [Fs (Remove frameworks),
                 Log Warn [Txt ''Encountered an error when attempting to pre-delete old frameworks:'',
                           Err err]])"
    if "platform (packager options) = Some ''darwin''"
      and "fs_outcome W tr (Remove frameworks) = Some err"
    unfolding relocateUpgrade_def Let_def
    using that cond ow assms(4,5) failed [OF that(2)]
    by (simp add: assoc) (simp add: bind_def' log_warn_def emit_def)
  have c2: "relocateUpgrade P W options finalOutDirectory appPath tr =
        io_bind (fs_call W (Copy (path_join P [appPath, bundle])
                                 (path_join P [finalOutDirectory, bundle])
                                 (Some True) (Some True))) (\<lambda>_.
        io_bind (fs_call W (Remove appPath)) (\<lambda>_.
        io_return finalOutDirectory))
          (tr @ [Fs (Remove frameworks)])"
    if "platform (packager options) = Some ''darwin''"
      and "fs_outcome W tr (Remove frameworks) = None"
    unfolding relocateUpgrade_def Let_def
    using that cond ow assms(4,5) passed [OF that(2)]
    by (simp add: assoc) (simp add: bind_def')
  have c3: "relocateUpgrade P W options finalOutDirectory appPath tr =
        io_bind (fs_call W (Copy appPath finalOutDirectory (Some True) (Some True))) (\<lambda>_.
        io_bind (fs_call W (Remove appPath)) (\<lambda>_.
        io_return finalOutDirectory)) tr"
    if "platform (packager options) \<noteq> Some ''darwin''"
    unfolding relocateUpgrade_def Let_def
    using that cond ow by simp
  from c1 c2 c3 show ?thesis by blast
qed

theorem relocateUpgrade_darwin_witness:
  "relocateUpgrade posix
     (world_failing (Remove ''/opt/OldApp/OldApp.app/Contents/Frameworks''))
     (upgraded_options ''darwin'') ''/opt/OldApp'' ''/tmp/appUpgrade/OldApp-darwin-x64'' []
   = (Inr ''/opt/OldApp'',
      [Fs (Remove ''/opt/OldApp/OldApp.app/Contents/Frameworks''),
       Log Warn [Txt ''Encountered an error when attempting to pre-delete old frameworks:'',
                 Err (Thrown ''EACCES'')],
       Fs (Copy ''/tmp/appUpgrade/OldApp-darwin-x64/OldApp.app'' ''/opt/OldApp/OldApp.app''
             (Some True) (Some True)),
       Fs (Remove ''/tmp/appUpgrade/OldApp-darwin-x64'')])
   \<and> relocateUpgrade posix world_ok
     (upgraded_options ''darwin'') ''/opt/OldApp'' ''/tmp/appUpgrade/OldApp-darwin-x64'' []
   = (Inr ''/opt/OldApp'',
      [Fs (Remove ''/opt/OldApp/OldApp.app/Contents/Frameworks''),
       Fs (Copy ''/tmp/appUpgrade/OldApp-darwin-x64/OldApp.app'' ''/opt/OldApp/OldApp.app''
             (Some True) (Some True)),
       Fs (Remove ''/tmp/appUpgrade/OldApp-darwin-x64'')])
   \<and> relocateUpgrade posix world_ok
     (upgraded_options ''linux'') ''/opt/OldApp'' ''/tmp/appUpgrade/OldApp-linux-x64'' []
   = (Inr ''/opt/OldApp'',
      [Fs (Copy ''/tmp/appUpgrade/OldApp-linux-x64'' ''/opt/OldApp'' (Some True) (Some True)),
       Fs (Remove ''/tmp/appUpgrade/OldApp-linux-x64'')])"
  using
    relocateUpgrade_darwin [where options = "upgraded_options ''darwin''" and P = posix
      and W = "world_failing (Remove ''/opt/OldApp/OldApp.app/Contents/Frameworks'')"
      and finalOutDirectory = "''/opt/OldApp''" and tr = "[]"
      and appPath = "''/tmp/appUpgrade/OldApp-darwin-x64''" and err = "Thrown ''EACCES''",
      OF _ _ _ refl refl]
    relocateUpgrade_darwin [where options = "upgraded_options ''darwin''" and P = posix
      and W = world_ok
      and finalOutDirectory = "''/opt/OldApp''" and tr = "[]"
      and appPath = "''/tmp/appUpgrade/OldApp-darwin-x64''",
      OF _ _ _ refl refl]
    relocateUpgrade_darwin [where options = "upgraded_options ''linux''" and P = posix
      and W = world_ok
      and finalOutDirectory = "''/opt/OldApp''" and tr = "[]"
      and appPath = "''/tmp/appUpgrade/OldApp-linux-x64''",
      OF _ _ _ refl refl]
  by (simp add: fixture_defs upgraded_options_def truthy_string_def truthy_flag_def io_defs)

text \<open>
  C9. Neither Linux step can abort the build: for every world, host and argument
  \<open>createLinuxDesktopLauncher\<close> and \<open>installLinuxApp\<close> return normally, and so does the
  rest of the build from the Linux block on, with the build path as its result. An
  error thrown inside the \<^verbatim>\<open>try\<close> block of either is logged with \<^verbatim>\<open>log.warn\<close>; the
  install step then logs the instructions for copying by hand.
\<close>

theorem linux_steps_never_abort:
  "fst (createLinuxDesktopLauncher P W appPath appName url tr) = Inr ()
   \<and> fst (installLinuxApp H P W appPath appName tr) = Inr ()
   \<and> fst (finishBuild H P W options appPath tr) = Inr appPath
   \<and> (createLinuxDesktopLauncher_try P W appPath appName url tr = (Inl err, tr') \<longrightarrow>
        createLinuxDesktopLauncher P W appPath appName url tr =
          (Inr (), tr' @ [Log Warn [Txt ''Failed to create desktop launcher:'', Err err]]))
   \<and> (installLinuxApp_try H P W appPath appName tr = (Inl err, tr') \<longrightarrow>
        installLinuxApp H P W appPath appName tr =
          (Inr (),
           tr' @ [Log Warn [Txt ''Failed to install app to /opt:'', Err err],
                  Log Info [Txt ''You can manually copy the app to /opt and the .desktop file to ~/.local/share/applications/'']]))"
proof -
  have launcher: "fst (createLinuxDesktopLauncher P W p n u t) = Inr ()" for p n u t
    by (simp add: createLinuxDesktopLauncher_def io_catch_def log_warn_def emit_def
        split: prod.splits sum.splits)
  have install: "fst (installLinuxApp H P W p n t) = Inr ()" for p n t
    by (simp add: installLinuxApp_def io_catch_def io_bind_def log_warn_def log_info_def
        emit_def split: prod.splits sum.splits)
  have integration: "fst (linuxIntegration H P W options appPath tr) = Inr ()"
  proof (cases "platform (packager options) = Some ''linux''
         \<and> truthy_string (name (packager options))
         \<and> truthy_string (targetUrl (packager options))")
    case False
    then show ?thesis
      by (auto simp add: linuxIntegration_def io_return_def)
  next
    case True
    then obtain n u where nu: "name (packager options) = Some n" "targetUrl (packager options) = Some u"
      by (auto simp add: truthy_string_def split: option.splits)
    obtain r t where l: "createLinuxDesktopLauncher P W appPath n u tr = (r, t)"
      by (cases "createLinuxDesktopLauncher P W appPath n u tr")
    with launcher [of appPath n u tr] have "r = Inr ()" by simp
    with True nu l show ?thesis
      by (simp add: linuxIntegration_def io_bind_def install)
  qed
  obtain t where i: "linuxIntegration H P W options appPath tr = (Inr (), t)"
    using integration by (cases "linuxIntegration H P W options appPath tr") simp
  have finish: "fst (finishBuild H P W options appPath tr) = Inr appPath"
    by (simp add: finishBuild_def io_bind_def i io_return_def log_info_def emit_def)
  have caught_launcher:
    "createLinuxDesktopLauncher_try P W appPath appName url tr = (Inl err, tr') \<longrightarrow>
        createLinuxDesktopLauncher P W appPath appName url tr =
          (Inr (), tr' @ [Log Warn [Txt ''Failed to create desktop launcher:'', Err err]])"
    by (simp add: createLinuxDesktopLauncher_def io_catch_def log_warn_def emit_def)
  have caught_install:
    "installLinuxApp_try H P W appPath appName tr = (Inl err, tr') \<longrightarrow>
        installLinuxApp H P W appPath appName tr =
          (Inr (),
           tr' @ [Log Warn [Txt ''Failed to install app to /opt:'', Err err],
                  Log Info [Txt ''You can manually copy the app to /opt and the .desktop file to ~/.local/share/applications/'']])"
    by (simp add: installLinuxApp_def io_catch_def io_bind_def log_warn_def log_info_def
        emit_def)
  from launcher [of appPath appName url tr] install [of appPath appName tr] finish
    caught_launcher caught_install
  show ?thesis by blast
qed

theorem linux_steps_never_abort_witness:
  "fst (createLinuxDesktopLauncher posix world_readonly ''/out/MyApp-linux-x64'' ''MyApp''
          ''https://example.com'' []) = Inr ()
   \<and> last (snd (createLinuxDesktopLauncher posix world_readonly ''/out/MyApp-linux-x64''
          ''MyApp'' ''https://example.com'' []))
       = Log Warn [Txt ''Failed to create desktop launcher:'', Err (Thrown ''EACCES'')]
   \<and> fst (installLinuxApp linux_host posix world_readonly ''/out/MyApp-linux-x64'' ''MyApp'' [])
       = Inr ()
   \<and> last (snd (installLinuxApp linux_host posix world_readonly ''/out/MyApp-linux-x64''
          ''MyApp'' []))
       = Log Info [Txt ''You can manually copy the app to /opt and the .desktop file to ~/.local/share/applications/'']
   \<and> fst (finishBuild linux_host posix world_readonly linux_options ''/out/MyApp-linux-x64'' [])
       = Inr ''/out/MyApp-linux-x64''"
proof -
  have l: "fst (createLinuxDesktopLauncher_try posix world_readonly ''/out/MyApp-linux-x64''
      ''MyApp'' ''https://example.com'' []) = Inl (Thrown ''EACCES'')"
    by (simp add: createLinuxDesktopLauncher_try_def io_defs Let_def fixture_defs)
  have i: "fst (installLinuxApp_try linux_host posix world_readonly ''/out/MyApp-linux-x64''
      ''MyApp'' []) = Inl (Thrown ''EACCES'')"
    by (simp add: installLinuxApp_try_def io_defs Let_def fixture_defs needsSudo_def)
  from l i
    linux_steps_never_abort [where P = posix and W = world_readonly and H = linux_host
      and appPath = "''/out/MyApp-linux-x64''" and appName = "''MyApp''"
      and url = "''https://example.com''" and tr = "[]" and options = linux_options
      and err = "Thrown ''EACCES''"
      and tr' = "snd (createLinuxDesktopLauncher_try posix world_readonly
                       ''/out/MyApp-linux-x64'' ''MyApp'' ''https://example.com'' [])"]
    linux_steps_never_abort [where P = posix and W = world_readonly and H = linux_host
      and appPath = "''/out/MyApp-linux-x64''" and appName = "''MyApp''"
      and url = "''https://example.com''" and tr = "[]" and options = linux_options
      and err = "Thrown ''EACCES''"
      and tr' = "snd (installLinuxApp_try linux_host posix world_readonly
                       ''/out/MyApp-linux-x64'' ''MyApp'' [])"]
  show ?thesis
    by (simp add: prod_eq_iff)
qed

text \<open>
  C10. The Linux block runs only when the target is \<^verbatim>\<open>linux\<close> and both
  \<^verbatim>\<open>options.packager.name\<close> and \<^verbatim>\<open>options.packager.targetUrl\<close> are truthy. Otherwise
  it does nothing, and the build ends with the closing log line and the build path: no
  desktop entry, no install attempt. When all three hold, it is the launcher step
  followed by the install step.
\<close>

theorem linuxIntegration_guard:
  "(\<not> (platform (packager options) = Some ''linux''
         \<and> truthy_string (name (packager options))
         \<and> truthy_string (targetUrl (packager options))) \<longrightarrow>
      linuxIntegration H P W options appPath tr = (Inr (), tr)
      \<and> finishBuild H P W options appPath tr =
          (Inr appPath,
           tr @ [Log Info [Txt (''App built to '' @ appPath
                                @ '', move to wherever it makes sense for you and run ''
                                @ getOSRunHelp (platform (packager options)))]]))
   \<and> (platform (packager options) = Some ''linux''
       \<and> name (packager options) = Some appName \<and> appName \<noteq> []
       \<and> targetUrl (packager options) = Some url \<and> url \<noteq> [] \<longrightarrow>
      linuxIntegration H P W options appPath tr =
        io_bind (createLinuxDesktopLauncher P W appPath appName url) (\<lambda>_.
        installLinuxApp H P W appPath appName) tr)"
  by (auto simp add: linuxIntegration_def finishBuild_def io_defs truthy_string_def)

theorem linuxIntegration_guard_witness:
  "finishBuild linux_host posix world_ok
     (linux_options\<lparr>packager := (packager linux_options)\<lparr>name := None\<rparr>\<rparr>)
     ''/out/MyApp-linux-x64'' []
   = (Inr ''/out/MyApp-linux-x64'',
      [Log Info [Txt ''App built to /out/MyApp-linux-x64, move to wherever it makes sense for you and run the contained executable file (prefixing with ./ if necessary)\<newline>A .desktop launcher file has been created in the app folder for your convenience.'']])
   \<and> linuxIntegration linux_host posix world_ok linux_options ''/out/MyApp-linux-x64'' []
   = io_bind (createLinuxDesktopLauncher posix world_ok ''/out/MyApp-linux-x64'' ''MyApp''
                ''https://example.com'') (\<lambda>_.
     installLinuxApp linux_host posix world_ok ''/out/MyApp-linux-x64'' ''MyApp'') []"
  using
    linuxIntegration_guard [where options = "linux_options\<lparr>packager := (packager linux_options)\<lparr>name := None\<rparr>\<rparr>"
      and H = linux_host and P = posix and W = world_ok
      and appPath = "''/out/MyApp-linux-x64''" and tr = "[]"]
    linuxIntegration_guard [where options = linux_options
      and H = linux_host and P = posix and W = world_ok
      and appPath = "''/out/MyApp-linux-x64''" and tr = "[]"
      and appName = "''MyApp''" and url = "''https://example.com''"]
  by (simp add: linux_options_def plain_options_def plain_packager_def truthy_string_def
      getOSRunHelp_def)

text \<open>
  The keys the loop of \<open>trimUnprocessableOptions\<close> assigns come from the entries of the
  options object itself. An object of the declared shape has the entries
  \<^verbatim>\<open>packager\<close> and \<^verbatim>\<open>nativefier\<close> only, and neither is among the six names; and an
  assignment to a property of the options object leaves \<^verbatim>\<open>options.packager\<close> as it is.
\<close>

lemma optionsPresent_declared:
  "extra options = [] \<Longrightarrow>
   filter (\<lambda>(key, value). key \<in> set OPTIONS_REQUIRING_WINDOWS_FOR_WINDOWS_BUILD \<and> truthy value)
     (Object_entries options) = []"
  by (simp add: Object_entries_def OPTIONS_REQUIRING_WINDOWS_FOR_WINDOWS_BUILD_def)

lemma fold_unset_property_packager:
  "packager (fold unset_property keys options) = packager options
   \<and> nativefier (fold unset_property keys options) = nativefier options"
  by (induction keys arbitrary: options) (simp_all add: unset_property_def)

text \<open>
  C2. The constraint filter on the code. Whatever the host and the configuration, the
  filter returns normally with \<^verbatim>\<open>options.packager\<close> and \<^verbatim>\<open>options.nativefier\<close>
  unchanged: a set \<^verbatim>\<open>options.packager.icon\<close> stays set. On a configuration of the
  declared shape \<^verbatim>\<open>{packager, nativefier}\<close> it changes nothing at all and logs nothing.
  In particular: target \<^verbatim>\<open>win32\<close>, a Linux host without Wine, icon, copyright and app
  version set; the configuration comes back as it was and no warning is logged. The claim
  has the fields cleared and one warning naming them.
\<close>

theorem trimUnprocessableOptions_keeps_packager:
  "(case trimUnprocessableOptions H options tr of
      (Inr options', tr') \<Rightarrow>
        packager options' = packager options \<and> nativefier options' = nativefier options
    | (Inl e, tr') \<Rightarrow> False)
   \<and> trimUnprocessableOptions H (options\<lparr>extra := []\<rparr>) tr = (Inr (options\<lparr>extra := []\<rparr>), tr)
   \<and> \<not> isWindows linux_host \<and> \<not> hasWine linux_host
   \<and> platform (packager windows_build_options) = Some ''win32''
   \<and> trimUnprocessableOptions linux_host windows_build_options []
       = (Inr windows_build_options, [])
   \<and> icon (packager windows_build_options) = Some ''/x/icon.ico''"
proof -
  have general: "(case trimUnprocessableOptions H options tr of
      (Inr options', tr') \<Rightarrow>
        packager options' = packager options \<and> nativefier options' = nativefier options
    | (Inl e, tr') \<Rightarrow> False)"
    by (simp add: trimUnprocessableOptions_def io_defs Let_def fold_unset_property_packager)
  have declared: "trimUnprocessableOptions H' (o'\<lparr>extra := []\<rparr>) t = (Inr (o'\<lparr>extra := []\<rparr>), t)"
    for H' o' t
    by (simp add: trimUnprocessableOptions_def io_defs Let_def optionsPresent_declared)
  have shape: "windows_build_options = windows_build_options\<lparr>extra := []\<rparr>"
    by (simp add: windows_build_options_def plain_options_def)
  have concrete: "trimUnprocessableOptions linux_host windows_build_options []
       = (Inr windows_build_options, [])"
    using declared [of linux_host windows_build_options "[]"] shape by simp
  have host: "\<not> isWindows linux_host \<and> \<not> hasWine linux_host"
    by (simp add: isWindows_def linux_host_def)
  have fields: "platform (packager windows_build_options) = Some ''win32''
      \<and> icon (packager windows_build_options) = Some ''/x/icon.ico''"
    by (simp add: windows_build_options_def plain_options_def plain_packager_def)
  from general declared [of H options tr] concrete host fields show ?thesis by blast
qed

text \<open>
  From the start of the build to the resolution of the options nothing is staged.
\<close>

lemma upgradeStage_staged:
  "upgradeStage W C rawOptions finalOutDirectory tr = (r, tr1) \<Longrightarrow> staged tr1 = staged tr"
  by (auto simp add: upgradeStage_def io_defs staged_def Let_def
      split: prod.splits bool.splits option.splits if_splits)

lemma resolveRequest_staged:
  assumes "resolveRequest H P W C rawOptions tr = (r, tr1)"
  shows "staged tr1 = staged tr"
proof -
  define tr0 where "tr0 = (if truthy_flag (RawOptions.quiet rawOptions) then tr @ [SetLevelSilent] else tr)
      @ [Log Warn [Txt maintenance_notice], Log Info [Txt ''\<newline>Processing options...'']]"
  have s0: "staged tr0 = staged tr"
    by (simp add: tr0_def staged_def)
  obtain r' tr' where u: "upgradeStage W C
                (rawOptions\<lparr>RawOptions.out := Some (defaultOut H P rawOptions)\<rparr>)
                (defaultOut H P rawOptions) tr0 = (r', tr')"
    by (cases "upgradeStage W C
                (rawOptions\<lparr>RawOptions.out := Some (defaultOut H P rawOptions)\<rparr>)
                (defaultOut H P rawOptions) tr0")
  then have s1: "staged tr' = staged tr0" by (rule upgradeStage_staged)
  have "tr1 = tr'"
    using assms u
    by (auto simp add: resolveRequest_def io_defs tr0_def split: sum.splits prod.splits if_splits)
  with s0 s1 show ?thesis by simp
qed

text \<open>
  C3, as amended. The guard tests for a Windows host, not for a host other than macOS.
  For every build whose options resolve to the target \<^verbatim>\<open>darwin\<close> on a Windows host
  without administrator rights, the build throws the admin-privileges error as its next
  step: the events are those of the resolution, and nothing has been staged. On a host
  that is not Windows, or with administrator rights, or for another target, the guard
  does nothing.
\<close>

theorem platformGuard_on_windows:
  "(resolveRequest H P W C rawOptions tr = (Inr (rawOptions1, finalOutDirectory, options), tr1)
      \<and> platform (packager options) = Some ''darwin''
      \<and> isWindows H \<and> \<not> isWindowsAdmin H \<longrightarrow>
      buildNativefierApp H P W C rawOptions tr = (Inl AdminRequired, tr1)
      \<and> staged tr1 = staged tr)
   \<and> (\<not> isWindows H \<or> isWindowsAdmin H \<or> platform (packager options) \<noteq> Some ''darwin'' \<longrightarrow>
      platformGuard H options tr = (Inr (), tr))"
proof -
  have a: "buildNativefierApp H P W C rawOptions tr = (Inl AdminRequired, tr1)"
    if "resolveRequest H P W C rawOptions tr = (Inr (rawOptions1, finalOutDirectory, options), tr1)"
      and "platform (packager options) = Some ''darwin''" and "isWindows H"
      and "\<not> isWindowsAdmin H"
    using that by (simp add: buildNativefierApp_def io_bind_def platformGuard_def io_throw_def)
  have b: "platformGuard H options tr = (Inr (), tr)"
    if "\<not> isWindows H \<or> isWindowsAdmin H \<or> platform (packager options) \<noteq> Some ''darwin''"
    using that by (auto simp add: platformGuard_def io_return_def)
  from a b resolveRequest_staged show ?thesis by blast
qed

theorem platformGuard_on_windows_witness:
  "buildNativefierApp windows_host posix world_ok example_collaborators
     (darwin_request\<lparr>RawOptions.out := Some ''/out''\<rparr>) []
   = (Inl AdminRequired,
      [Log Warn [Txt maintenance_notice], Log Info [Txt ''\<newline>Processing options...'']])
   \<and> staged [Log Warn [Txt maintenance_notice], Log Info [Txt ''\<newline>Processing options...'']]
       = []
   \<and> platformGuard linux_host darwin_options [] = (Inr (), [])"
proof -
  have r: "resolveRequest windows_host posix world_ok example_collaborators
      (darwin_request\<lparr>RawOptions.out := Some ''/out''\<rparr>) []
    = (Inr (darwin_request\<lparr>RawOptions.out := Some ''/out''\<rparr>, ''/out'', darwin_options),
       [Log Warn [Txt maintenance_notice], Log Info [Txt ''\<newline>Processing options...'']])"
    by (simp add: resolveRequest_def upgradeStage_def isUpgrade_def defaultOut_def
        truthy_flag_def darwin_request_def darwin_options_def collaborator_defs io_defs
        fixture_defs)
  have h: "platform (packager darwin_options) = Some ''darwin''
      \<and> isWindows windows_host \<and> \<not> isWindowsAdmin windows_host \<and> \<not> isWindows linux_host"
    by (simp add: darwin_options_def isWindows_def fixture_defs)
  from r h
    platformGuard_on_windows [where H = windows_host and P = posix and W = world_ok
      and C = example_collaborators
      and rawOptions = "darwin_request\<lparr>RawOptions.out := Some ''/out''\<rparr>" and tr = "[]"
      and ?rawOptions1.0 = "darwin_request\<lparr>RawOptions.out := Some ''/out''\<rparr>"
      and finalOutDirectory = "''/out''" and options = darwin_options
      and ?tr1.0 = "[Log Warn [Txt maintenance_notice], Log Info [Txt ''\<newline>Processing options...'']]"]
    platformGuard_on_windows [where H = linux_host and options = darwin_options and tr = "[]"]
  show ?thesis by (simp add: staged_def)
qed

text \<open>
  C3 as stated covers every host other than macOS. On a Linux host, without
  administrator rights, the request for a \<^verbatim>\<open>darwin\<close> build resolves to the target
  \<^verbatim>\<open>darwin\<close> and the build returns its path: no privileges error.
\<close>

theorem platformGuard_on_linux_counterexample:
  "process_platform linux_host \<noteq> ''darwin''
   \<and> \<not> isWindowsAdmin linux_host
   \<and> map_sum id (\<lambda>(rawOptions1, finalOutDirectory, options). platform (packager options))
        (fst (resolveRequest linux_host posix world_ok example_collaborators darwin_request []))
       = Inr (Some ''darwin'')
   \<and> fst (buildNativefierApp linux_host posix world_ok example_collaborators darwin_request [])
       = Inr ''/home/user/output-apps/MyApp-darwin-x64''"
  by (simp add: build_defs collaborator_defs darwin_request_def io_defs fixture_defs)

text \<open>
  The final destination under the spec's merge. \<open>isUpgrade\<close> leaves \<^verbatim>\<open>out\<close> alone, the
  merge keeps a field the request has set, and the build sets \<^verbatim>\<open>out\<close> before the
  upgrade block: so the test \<^verbatim>\<open>rawOptions.out === undefined\<close> of the upgrade block is
  never true, and \<^verbatim>\<open>finalOutDirectory\<close> is never redirected to the prior install.
\<close>

lemma isUpgrade_keeps_out: "RawOptions.out (snd (isUpgrade r)) = RawOptions.out r"
  by (simp add: isUpgrade_def split: option.splits upgrade_value.splits)

lemma useOldAppOptions_spec_keeps_out:
  "RawOptions.out r = Some d \<Longrightarrow> RawOptions.out (useOldAppOptions_spec r a) = Some d"
  by (simp add: useOldAppOptions_spec_def or_saved_def)

lemma upgradeStage_destination:
  assumes "useOldAppOptions C = useOldAppOptions_spec"
    and "RawOptions.out rawOptions = Some d"
    and "upgradeStage W C rawOptions finalOutDirectory tr = (Inr (rawOptions1, finalOutDirectory1), tr1)"
  shows "finalOutDirectory1 = finalOutDirectory"
proof (cases "isUpgrade rawOptions")
  case (Pair b r)
  with isUpgrade_keeps_out [of rawOptions] assms(2) have out: "RawOptions.out r = Some d"
    by simp
  show ?thesis
  proof (cases b)
    case False
    with Pair assms(3) show ?thesis
      by (simp add: upgradeStage_def io_return_def)
  next
    case True
    show ?thesis
    proof (cases "findUpgradeApp C (RawOptions.upgradeFrom r)")
      case None
      with Pair True assms(3) show ?thesis
        by (simp add: upgradeStage_def io_throw_def)
    next
      case (Some oldApp)
      from out have "RawOptions.out (useOldAppOptions C r oldApp) = Some d"
        by (simp add: assms(1) useOldAppOptions_spec_keeps_out)
      with Pair True Some assms(3) show ?thesis
        by (simp add: upgradeStage_def io_return_def Let_def)
    qed
  qed
qed

lemma resolveRequest_destination:
  assumes "useOldAppOptions C = useOldAppOptions_spec"
    and "resolveRequest H P W C rawOptions tr = (Inr (rawOptions1, finalOutDirectory, options), tr1)"
  shows "finalOutDirectory = defaultOut H P rawOptions"
proof -
  define tr0 where "tr0 = (if truthy_flag (RawOptions.quiet rawOptions) then tr @ [SetLevelSilent] else tr)
      @ [Log Warn [Txt maintenance_notice], Log Info [Txt ''\<newline>Processing options...'']]"
  obtain r' tr' where u: "upgradeStage W C
                (rawOptions\<lparr>RawOptions.out := Some (defaultOut H P rawOptions)\<rparr>)
                (defaultOut H P rawOptions) tr0 = (r', tr')"
    by (cases "upgradeStage W C
                (rawOptions\<lparr>RawOptions.out := Some (defaultOut H P rawOptions)\<rparr>)
                (defaultOut H P rawOptions) tr0")
  have "\<exists>r1. r' = Inr (r1, finalOutDirectory)"
    using assms(2) u
    by (auto simp add: resolveRequest_def io_defs tr0_def split: sum.splits prod.splits if_splits)
  then obtain r1 where "r' = Inr (r1, finalOutDirectory)" ..
  with u upgradeStage_destination [OF assms(1), where rawOptions = "rawOptions\<lparr>RawOptions.out := Some (defaultOut H P rawOptions)\<rparr>"
      and d = "defaultOut H P rawOptions"]
  show ?thesis by simp
qed

text \<open>
  C1. The upgrade build on the code: the request has \<^verbatim>\<open>upgrade = "/opt/OldApp"\<close>,
  \<^verbatim>\<open>overwrite = true\<close> and no output directory; the prior install is found at
  \<^verbatim>\<open>/opt/OldApp\<close>. The build returns \<^verbatim>\<open>/home/user/output-apps\<close>, the default
  output directory under the working directory, where the claim has \<^verbatim>\<open>/opt/OldApp\<close>.
\<close>

theorem upgrade_in_place_lands_in_default_out:
  "appRoot old_app = ''/opt/OldApp''
   \<and> findUpgradeApp example_collaborators (Some ''/opt/OldApp'') = Some old_app
   \<and> RawOptions.out upgrade_request = None
   \<and> RawOptions.overwrite upgrade_request = Some True
   \<and> RawOptions.upgrade upgrade_request = Some (UpgradePath ''/opt/OldApp'')
   \<and> fst (buildNativefierApp linux_host posix world_ok example_collaborators upgrade_request [])
       = Inr ''/home/user/output-apps''"
  by (simp add: build_defs collaborator_defs io_defs fixture_defs)

end
